theory Spec2Isabelle
  imports Complex_Main "HOL-Library.Stream" "HOL-Library.Monad_Syntax"
begin

section \<open>The game engine of cyber-neon-snake (js/game.js, class Game)\<close>

text \<open>
  The engine is a JavaScript class whose methods mutate the fields of one object. The
  embedding passes that object around as a record and returns it updated.

  \<^item> JavaScript numbers are idealised: grid coordinates and counters are integers,
    intervals and probabilities are reals (the rounding of doubles is not modelled).
  \<^item> \<open>Math.random()\<close> is a stream of reals that every drawing function consumes and
    returns; \<open>Date.now()\<close> is an argument of the tick.
  \<^item> A timer handle (\<open>setInterval\<close>, \<open>setTimeout\<close>) is \<open>Some d\<close>, with \<open>d\<close> the delay
    the timer was armed with, and \<open>None\<close> for \<open>null\<close>.
  \<^item> The host callbacks are notifications only and are left out.
  \<^item> A search loop that may run forever returns \<open>None\<close> when it does.
\<close>

subsection \<open>Data\<close>

text \<open>A grid cell \<open>{x, y}\<close>; the fields are named \<open>xc\<close> and \<open>yc\<close>.\<close>

record cell =
  xc :: int
  yc :: int

datatype food_type = Normal | Special

text \<open>The food object \<open>{x, y, type}\<close>.\<close>

record food = cell +
  type :: food_type

datatype power_up = SpeedBoost | Invincible | WallPass

record config =
  gridSize :: int
  width :: int
  height :: int
  speed :: real
  speedIncrease :: real
  maxSpeed :: real
  initialSnakeLength :: int
  mode :: string
  timeLimit :: int
  obstacleCount :: int
  specialFoodChance :: real
  specialFoodDuration :: real

text \<open>The argument of the constructor and of \<open>setConfig\<close>: any subset of the keys.\<close>

record config_opts =
  gridSize_opt :: "int option"
  width_opt :: "int option"
  height_opt :: "int option"
  speed_opt :: "real option"
  speedIncrease_opt :: "real option"
  maxSpeed_opt :: "real option"
  initialSnakeLength_opt :: "int option"
  mode_opt :: "string option"
  timeLimit_opt :: "int option"
  obstacleCount_opt :: "int option"
  specialFoodChance_opt :: "real option"
  specialFoodDuration_opt :: "real option"

record run_state =
  running :: bool
  paused :: bool
  gameOver :: bool
  score :: int
  time :: int
  foodEaten :: nat
  specialFoodEaten :: nat
  powerUpActive :: bool
  powerUpType :: "power_up option"
  powerUpEndTime :: int

record snake =
  body :: "cell list"
  direction :: string
  nextDirection :: string
  growing :: bool

record game =
  config :: config
  state :: run_state
  snake :: snake
  food :: food
  obstacles :: "cell list"
  specialFoodTimer :: "real option"
  gameLoopInterval :: "real option"
  gameTimeInterval :: "real option"

text \<open>The snapshot returned by \<open>getRenderData\<close>.\<close>

record render_data =
  rd_snake :: "cell list"
  rd_food :: food
  rd_obstacles :: "cell list"
  rd_gridSize :: int
  rd_width :: int
  rd_height :: int
  rd_powerUp :: "power_up option"

datatype error = TypeError | NotANumber

type_synonym rng = "real stream"

subsection \<open>Utils (js/audio.js)\<close>

text \<open>\<open>Utils.getRandomInt(min, max)\<close>, with \<open>r\<close> the value \<open>Math.random()\<close> returned.\<close>

definition getRandomInt :: "int \<Rightarrow> int \<Rightarrow> real \<Rightarrow> int" where
  "getRandomInt lo hi r = \<lfloor>r * real_of_int (hi - lo + 1)\<rfloor> + lo"

definition checkCollision_Utils :: "'a cell_scheme \<Rightarrow> 'b cell_scheme \<Rightarrow> bool" where
  "checkCollision_Utils obj1 obj2 \<longleftrightarrow> xc obj1 = xc obj2 \<and> yc obj1 = yc obj2"

text \<open>The loop of \<open>checkCollisionWithArray\<close> from index \<open>startIndex\<close> on.\<close>

fun collidesFrom :: "'a cell_scheme \<Rightarrow> cell list \<Rightarrow> bool" where
  "collidesFrom obj [] = False"
| "collidesFrom obj (c # cs) = (if checkCollision_Utils obj c then True else collidesFrom obj cs)"

definition checkCollisionWithArray :: "'a cell_scheme \<Rightarrow> cell list \<Rightarrow> bool \<Rightarrow> bool" where
  "checkCollisionWithArray obj array ignoreHead =
     collidesFrom obj (drop (if ignoreHead then 1 else 0) array)"

subsection \<open>Speed\<close>

definition getCurrentSpeed :: "game \<Rightarrow> real" where
  "getCurrentSpeed g =
     (let speed0 = speed (config g) - real (foodEaten (state g)) * speedIncrease (config g);
          speed1 = (if powerUpActive (state g) \<and> powerUpType (state g) = Some SpeedBoost
                    then speed0 * 0.7 else speed0)
      in max (maxSpeed (config g)) speed1)"

subsection \<open>Timers and run state\<close>

definition clearTimers :: "game \<Rightarrow> game" where
  "clearTimers g =
     g\<lparr>gameLoopInterval := None, gameTimeInterval := None, specialFoodTimer := None\<rparr>"

definition initial_state :: run_state where
  "initial_state =
     \<lparr>running = False, paused = False, gameOver = False, score = 0, time = 0,
      foodEaten = 0, specialFoodEaten = 0, powerUpActive = False, powerUpType = None,
      powerUpEndTime = 0\<rparr>"

definition resetState :: "game \<Rightarrow> game" where
  "resetState g = clearTimers (g\<lparr>state := initial_state\<rparr>)"

definition endGame :: "game \<Rightarrow> game" where
  "endGame g =
     (if \<not> running (state g) then g
      else clearTimers (g\<lparr>state := (state g)\<lparr>running := False, gameOver := True\<rparr>\<rparr>))"

definition start :: "game \<Rightarrow> game" where
  "start g =
     (if running (state g) then g
      else let g1 = g\<lparr>state := (state g)\<lparr>running := True, paused := False, gameOver := False\<rparr>\<rparr>
           in g1\<lparr>gameLoopInterval := Some (getCurrentSpeed g1), gameTimeInterval := Some 1000\<rparr>)"

definition pause :: "game \<Rightarrow> game" where
  "pause g =
     (if \<not> running (state g) \<or> paused (state g) then g
      else g\<lparr>state := (state g)\<lparr>paused := True\<rparr>,
             gameLoopInterval := None, gameTimeInterval := None\<rparr>)"

definition resume :: "game \<Rightarrow> game" where
  "resume g =
     (if \<not> running (state g) \<or> \<not> paused (state g) then g
      else let g1 = g\<lparr>state := (state g)\<lparr>paused := False\<rparr>\<rparr>
           in g1\<lparr>gameLoopInterval := Some (getCurrentSpeed g1), gameTimeInterval := Some 1000\<rparr>)"

text \<open>The callback of the one-second timer armed by \<open>start\<close> and \<open>resume\<close>.\<close>

definition gameTimeTick :: "game \<Rightarrow> game" where
  "gameTimeTick g =
     (let g1 = g\<lparr>state := (state g)\<lparr>time := time (state g) + 1\<rparr>\<rparr>
      in if mode (config g1) = ''timeAttack'' \<and> time (state g1) \<ge> timeLimit (config g1)
         then endGame g1 else g1)"

subsection \<open>Snake\<close>

definition initSnake :: "game \<Rightarrow> game" where
  "initSnake g =
     (let centerX = width (config g) div 2;
          centerY = height (config g) div 2
      in g\<lparr>snake := (snake g)
            \<lparr>body := map (\<lambda>i. \<lparr>xc = centerX - int i, yc = centerY\<rparr>)
                          [0 ..< nat (initialSnakeLength (config g))],
             direction := ''right'', nextDirection := ''right''\<rparr>\<rparr>)"

definition changeDirection :: "string \<Rightarrow> game \<Rightarrow> game" where
  "changeDirection d g =
     (if (d = ''up'' \<and> direction (snake g) \<noteq> ''down'') \<or>
         (d = ''down'' \<and> direction (snake g) \<noteq> ''up'') \<or>
         (d = ''left'' \<and> direction (snake g) \<noteq> ''right'') \<or>
         (d = ''right'' \<and> direction (snake g) \<noteq> ''left'')
      then g\<lparr>snake := (snake g)\<lparr>nextDirection := d\<rparr>\<rparr>
      else g)"

text \<open>
  The first half of \<open>moveSnake\<close>: the copy of the head, the switch on the direction and
  the wrap under the wallPass power-up. The switch has no default: another direction
  leaves the head where it is. The four wrap tests run in sequence, each on the result
  of the one before.
\<close>

definition newHead :: "game \<Rightarrow> cell \<Rightarrow> cell" where
  "newHead g h =
     (let d = direction (snake g);
          head1 = (if d = ''up'' then h\<lparr>yc := yc h - 1\<rparr>
                   else if d = ''down'' then h\<lparr>yc := yc h + 1\<rparr>
                   else if d = ''left'' then h\<lparr>xc := xc h - 1\<rparr>
                   else if d = ''right'' then h\<lparr>xc := xc h + 1\<rparr>
                   else h)
      in if powerUpActive (state g) \<and> powerUpType (state g) = Some WallPass
         then let head2 = (if xc head1 < 0 then head1\<lparr>xc := width (config g) - 1\<rparr> else head1);
                  head3 = (if xc head2 \<ge> width (config g) then head2\<lparr>xc := 0\<rparr> else head2);
                  head4 = (if yc head3 < 0 then head3\<lparr>yc := height (config g) - 1\<rparr> else head3)
              in (if yc head4 \<ge> height (config g) then head4\<lparr>yc := 0\<rparr> else head4)
         else head1)"

text \<open>
  \<open>moveSnake\<close>: the new head is put in front, and the tail is popped unless the snake is
  growing. On an empty body the source reads \<open>body[0]\<close> as \<open>undefined\<close> and builds a
  head with \<open>NaN\<close> coordinates; without the growing flag that head is popped again, with
  it the cell would stay, which \<open>cell\<close> cannot hold (\<open>NotANumber\<close>).
\<close>

definition moveSnake :: "game \<Rightarrow> error + game" where
  "moveSnake g =
     (case body (snake g) of
        [] \<Rightarrow> (if growing (snake g) then Inl NotANumber else Inr g)
      | h # _ \<Rightarrow>
          (let body1 = newHead g h # body (snake g)
           in if \<not> growing (snake g)
              then Inr (g\<lparr>snake := (snake g)\<lparr>body := butlast body1\<rparr>\<rparr>)
              else Inr (g\<lparr>snake := (snake g)\<lparr>body := body1, growing := False\<rparr>\<rparr>)))"

text \<open>The two search loops of \<open>checkCollision\<close>: over the body from index 1, over the obstacles.\<close>

fun headHits :: "cell \<Rightarrow> cell list \<Rightarrow> bool" where
  "headHits h [] = False"
| "headHits h (c # cs) = (if xc h = xc c \<and> yc h = yc c then True else headHits h cs)"

text \<open>
  \<open>checkCollision\<close>. On an empty body \<open>head\<close> is \<open>undefined\<close>, and the first read of
  \<open>head.x\<close> raises a TypeError: in the wall test, which wallPass skips, or else in the
  loop over the obstacles, which runs in obstacle mode when there is an obstacle; the loop
  over the body does not run at all.
\<close>

definition checkCollision :: "game \<Rightarrow> error + bool" where
  "checkCollision g =
     (case body (snake g) of
        [] \<Rightarrow>
          (if \<not> powerUpActive (state g) \<or> powerUpType (state g) \<noteq> Some WallPass
           then Inl TypeError
           else if mode (config g) = ''obstacle'' \<and>
                   (\<not> powerUpActive (state g) \<or> powerUpType (state g) \<noteq> Some Invincible) \<and>
                   obstacles g \<noteq> []
           then Inl TypeError
           else Inr False)
      | h # rest \<Rightarrow>
          Inr (if (\<not> powerUpActive (state g) \<or> powerUpType (state g) \<noteq> Some WallPass) \<and>
                  (xc h < 0 \<or> xc h \<ge> width (config g) \<or> yc h < 0 \<or> yc h \<ge> height (config g))
               then True
               else if (\<not> powerUpActive (state g) \<or> powerUpType (state g) \<noteq> Some Invincible) \<and>
                       headHits h rest
               then True
               else if mode (config g) = ''obstacle'' \<and>
                       (\<not> powerUpActive (state g) \<or> powerUpType (state g) \<noteq> Some Invincible) \<and>
                       headHits h (obstacles g)
               then True
               else False))"

subsection \<open>Spawning\<close>

text \<open>
  The body of \<open>while (!validPosition)\<close> in \<open>spawnObstacle\<close>: two draws for a candidate,
  the three overlap tests, and the loop again on an overlap.
\<close>

partial_function (option) spawnObstacle_loop :: "game \<Rightarrow> rng \<Rightarrow> (cell \<times> rng) option" where
  "spawnObstacle_loop g s =
     (let obstacle = \<lparr>xc = getRandomInt 0 (width (config g) - 1) (shd s),
                      yc = getRandomInt 0 (height (config g) - 1) (shd (stl s))\<rparr>;
          collidesWithSnake = checkCollisionWithArray obstacle (body (snake g)) False;
          collidesWithFood = checkCollision_Utils obstacle (food g);
          collidesWithObstacles = list_ex (\<lambda>obs. checkCollision_Utils obstacle obs) (obstacles g)
      in if \<not> collidesWithSnake \<and> \<not> collidesWithFood \<and> \<not> collidesWithObstacles
         then Some (obstacle, stl (stl s))
         else spawnObstacle_loop g (stl (stl s)))"

definition spawnObstacle :: "game \<Rightarrow> rng \<Rightarrow> (game \<times> rng) option" where
  "spawnObstacle g s =
     do { (obstacle, s1) \<leftarrow> spawnObstacle_loop g s;
          Some (g\<lparr>obstacles := obstacles g @ [obstacle]\<rparr>, s1) }"

fun initObstacles_loop :: "nat \<Rightarrow> game \<Rightarrow> rng \<Rightarrow> (game \<times> rng) option" where
  "initObstacles_loop 0 g s = Some (g, s)"
| "initObstacles_loop (Suc n) g s =
     do { (g1, s1) \<leftarrow> spawnObstacle g s; initObstacles_loop n g1 s1 }"

definition initObstacles :: "game \<Rightarrow> rng \<Rightarrow> (game \<times> rng) option" where
  "initObstacles g s = initObstacles_loop (nat (obstacleCount (config g))) (g\<lparr>obstacles := []\<rparr>) s"

text \<open>The body of \<open>while (!validPosition)\<close> in \<open>spawnFood\<close>; every round overwrites the food.\<close>

partial_function (option) spawnFood_loop :: "bool \<Rightarrow> game \<Rightarrow> rng \<Rightarrow> (game \<times> rng) option" where
  "spawnFood_loop isSpecial g s =
     (let g1 = g\<lparr>food := \<lparr>xc = getRandomInt 0 (width (config g) - 1) (shd s),
                          yc = getRandomInt 0 (height (config g) - 1) (shd (stl s)),
                          type = (if isSpecial then Special else Normal)\<rparr>\<rparr>;
          collidesWithSnake = checkCollisionWithArray (food g1) (body (snake g1)) False;
          collidesWithObstacles = list_ex (\<lambda>obs. checkCollision_Utils (food g1) obs) (obstacles g1)
      in if \<not> collidesWithSnake \<and> \<not> collidesWithObstacles
         then Some (g1, stl (stl s))
         else spawnFood_loop isSpecial g1 (stl (stl s)))"

definition spawnFood :: "game \<Rightarrow> rng \<Rightarrow> (game \<times> rng) option" where
  "spawnFood g s =
     (let g0 = g\<lparr>specialFoodTimer := None\<rparr>;
          isSpecial = (shd s < specialFoodChance (config g0))
      in do { (g1, s1) \<leftarrow> spawnFood_loop isSpecial g0 (stl s);
              Some (if isSpecial
                    then g1\<lparr>specialFoodTimer := Some (specialFoodDuration (config g1))\<rparr>
                    else g1, s1) })"

text \<open>The callback of the timer armed by \<open>spawnFood\<close> for a special food.\<close>

definition specialFoodTimeout :: "game \<Rightarrow> rng \<Rightarrow> (game \<times> rng) option" where
  "specialFoodTimeout g s =
     (if type (food g) = Special then spawnFood g s else Some (g, s))"

subsection \<open>Food and power-ups\<close>

definition addScore :: "int \<Rightarrow> game \<Rightarrow> game" where
  "addScore points g = g\<lparr>state := (state g)\<lparr>score := score (state g) + points\<rparr>\<rparr>"

text \<open>
  \<open>activatePowerUp\<close> draws an index into \<open>['speedBoost', 'invincible', 'wallPass']\<close>; an
  index outside the array reads \<open>undefined\<close>, which no test of the engine tells from
  \<open>null\<close>.
\<close>

definition activatePowerUp :: "int \<Rightarrow> game \<Rightarrow> rng \<Rightarrow> game \<times> rng" where
  "activatePowerUp now g s =
     (let powerUps = [SpeedBoost, Invincible, WallPass];
          i = getRandomInt 0 (int (length powerUps) - 1) (shd s);
          powerUpType1 = (if 0 \<le> i \<and> i < int (length powerUps)
                          then Some (powerUps ! nat i) else None)
      in (g\<lparr>state := (state g)\<lparr>powerUpActive := True, powerUpType := powerUpType1,
                                powerUpEndTime := now + 5000\<rparr>\<rparr>, stl s))"

definition checkPowerUps :: "int \<Rightarrow> game \<Rightarrow> game" where
  "checkPowerUps now g =
     (if powerUpActive (state g) \<and> now \<ge> powerUpEndTime (state g)
      then g\<lparr>state := (state g)\<lparr>powerUpActive := False, powerUpType := None\<rparr>\<rparr>
      else g)"

text \<open>
  \<open>checkFood\<close>. \<open>Math.random() < 0.3\<close> is evaluated only in obstacle mode, so only then
  is a draw consumed.
\<close>

definition checkFood :: "int \<Rightarrow> game \<Rightarrow> rng \<Rightarrow> (error + game \<times> rng) option" where
  "checkFood now g s =
     (case body (snake g) of
        [] \<Rightarrow> Some (Inl TypeError)
      | h # _ \<Rightarrow>
          if xc h = xc (food g) \<and> yc h = yc (food g)
          then do {
            let g1 = addScore (if type (food g) = Special then 5 else 1) g;
            let g2 = g1\<lparr>state := (state g1)\<lparr>foodEaten := foodEaten (state g1) + 1\<rparr>\<rparr>;
            let (g3, s3) =
              (if type (food g2) = Special
               then activatePowerUp now
                      (g2\<lparr>state := (state g2)
                            \<lparr>specialFoodEaten := specialFoodEaten (state g2) + 1\<rparr>\<rparr>) s
               else (g2, s));
            let g4 = g3\<lparr>snake := (snake g3)\<lparr>growing := True\<rparr>\<rparr>;
            (g5, s5) \<leftarrow> spawnFood g4 s3;
            (g6, s6) \<leftarrow> (if mode (config g5) = ''obstacle''
                         then (if shd s5 < 0.3 then spawnObstacle g5 (stl s5)
                               else Some (g5, stl s5))
                         else Some (g5, s5));
            Some (Inr (if gameLoopInterval g6 \<noteq> None
                       then g6\<lparr>gameLoopInterval := Some (getCurrentSpeed g6)\<rparr>
                       else g6, s6))
          }
          else Some (Inr (g, s)))"

subsection \<open>The simulation tick\<close>

definition gameLoop :: "int \<Rightarrow> game \<Rightarrow> rng \<Rightarrow> (error + game \<times> rng) option" where
  "gameLoop now g s =
     (let g1 = g\<lparr>snake := (snake g)\<lparr>direction := nextDirection (snake g)\<rparr>\<rparr>
      in case moveSnake g1 of
           Inl e \<Rightarrow> Some (Inl e)
         | Inr g2 \<Rightarrow>
             (case checkCollision g2 of
                Inl e \<Rightarrow> Some (Inl e)
              | Inr True \<Rightarrow> Some (Inr (endGame g2, s))
              | Inr False \<Rightarrow>
                  (case checkFood now g2 s of
                     None \<Rightarrow> None
                   | Some (Inl e) \<Rightarrow> Some (Inl e)
                   | Some (Inr (g3, s3)) \<Rightarrow> Some (Inr (checkPowerUps now g3, s3)))))"

subsection \<open>Construction, reset and configuration\<close>

definition init :: "game \<Rightarrow> rng \<Rightarrow> (game \<times> rng) option" where
  "init g s =
     do { (g2, s2) \<leftarrow> spawnFood (initSnake g) s;
          (g3, s3) \<leftarrow> (if mode (config g2) = ''obstacle'' then initObstacles g2 s2
                       else Some (g2, s2));
          Some (resetState g3, s3) }"

definition reset :: "game \<Rightarrow> rng \<Rightarrow> (game \<times> rng) option" where
  "reset g s = init (clearTimers g) s"

definition default_config :: config where
  "default_config =
     \<lparr>gridSize = 20, width = 30, height = 20, speed = 150, speedIncrease = 2, maxSpeed = 50,
      initialSnakeLength = 3, mode = ''classic'', timeLimit = 120, obstacleCount = 5,
      specialFoodChance = 0.1, specialFoodDuration = 5000\<rparr>"

text \<open>The object spread \<open>{...base, ...opts}\<close>: a key of \<open>opts\<close> replaces the one of \<open>base\<close>.\<close>

definition merge_config :: "config \<Rightarrow> config_opts \<Rightarrow> config" where
  "merge_config base opts =
     \<lparr>gridSize = (case gridSize_opt opts of None \<Rightarrow> gridSize base | Some v \<Rightarrow> v),
      width = (case width_opt opts of None \<Rightarrow> width base | Some v \<Rightarrow> v),
      height = (case height_opt opts of None \<Rightarrow> height base | Some v \<Rightarrow> v),
      speed = (case speed_opt opts of None \<Rightarrow> speed base | Some v \<Rightarrow> v),
      speedIncrease = (case speedIncrease_opt opts of None \<Rightarrow> speedIncrease base | Some v \<Rightarrow> v),
      maxSpeed = (case maxSpeed_opt opts of None \<Rightarrow> maxSpeed base | Some v \<Rightarrow> v),
      initialSnakeLength =
        (case initialSnakeLength_opt opts of None \<Rightarrow> initialSnakeLength base | Some v \<Rightarrow> v),
      mode = (case mode_opt opts of None \<Rightarrow> mode base | Some v \<Rightarrow> v),
      timeLimit = (case timeLimit_opt opts of None \<Rightarrow> timeLimit base | Some v \<Rightarrow> v),
      obstacleCount = (case obstacleCount_opt opts of None \<Rightarrow> obstacleCount base | Some v \<Rightarrow> v),
      specialFoodChance =
        (case specialFoodChance_opt opts of None \<Rightarrow> specialFoodChance base | Some v \<Rightarrow> v),
      specialFoodDuration =
        (case specialFoodDuration_opt opts of None \<Rightarrow> specialFoodDuration base | Some v \<Rightarrow> v)\<rparr>"

definition no_opts :: config_opts where
  "no_opts =
     \<lparr>gridSize_opt = None, width_opt = None, height_opt = None, speed_opt = None,
      speedIncrease_opt = None, maxSpeed_opt = None, initialSnakeLength_opt = None,
      mode_opt = None, timeLimit_opt = None, obstacleCount_opt = None,
      specialFoodChance_opt = None, specialFoodDuration_opt = None\<rparr>"

text \<open>The constructor: the field initialisers (\<open>new_game\<close>), then \<open>init\<close>.\<close>

definition new_game :: "config \<Rightarrow> game" where
  "new_game c =
     \<lparr>config = c,
      state = initial_state,
      snake = \<lparr>body = [], direction = ''right'', nextDirection = ''right'', growing = False\<rparr>,
      food = \<lparr>xc = 0, yc = 0, type = Normal\<rparr>,
      obstacles = [],
      specialFoodTimer = None, gameLoopInterval = None, gameTimeInterval = None\<rparr>"

definition constructor :: "config_opts \<Rightarrow> rng \<Rightarrow> (game \<times> rng) option" where
  "constructor opts s = init (new_game (merge_config default_config opts)) s"

definition setConfig :: "config_opts \<Rightarrow> game \<Rightarrow> rng \<Rightarrow> (game \<times> rng) option" where
  "setConfig opts g s =
     (let g1 = g\<lparr>config := merge_config (config g) opts\<rparr>
      in if \<not> running (state g1) then reset g1 s else Some (g1, s))"

definition getRenderData :: "game \<Rightarrow> render_data" where
  "getRenderData g =
     \<lparr>rd_snake = body (snake g), rd_food = food g, rd_obstacles = obstacles g,
      rd_gridSize = gridSize (config g), rd_width = width (config g),
      rd_height = height (config g),
      rd_powerUp = (if powerUpActive (state g) then powerUpType (state g) else None)\<rparr>"

section \<open>Vocabulary of the properties\<close>

text \<open>
  \<open>occupies cs p\<close>: some cell of \<open>cs\<close> has the coordinates of \<open>p\<close>. \<open>inGrid c p\<close>: \<open>p\<close>
  lies in \<open>[0, width) \<times> [0, height)\<close>. \<open>unit_draws s\<close>: every draw lies in \<open>[0, 1)\<close>, as
  \<open>Math.random()\<close> promises. \<open>candidate c s k\<close>: the cell that the draws \<open>2k\<close> and
  \<open>2k + 1\<close> of \<open>s\<close> give. \<open>boardFull g\<close>: every cell of the grid is under the snake or an
  obstacle.
\<close>

definition occupies :: "cell list \<Rightarrow> 'a cell_scheme \<Rightarrow> bool" where
  "occupies cs p \<longleftrightarrow> (\<exists>c \<in> set cs. xc p = xc c \<and> yc p = yc c)"

definition inGrid :: "config \<Rightarrow> 'a cell_scheme \<Rightarrow> bool" where
  "inGrid c p \<longleftrightarrow> 0 \<le> xc p \<and> xc p < width c \<and> 0 \<le> yc p \<and> yc p < height c"

definition unit_draws :: "rng \<Rightarrow> bool" where
  "unit_draws s \<longleftrightarrow> (\<forall>r \<in> sset s. 0 \<le> r \<and> r < 1)"



text \<open>
  The three power-ups as the engine tests them, and the engine with another food count.
\<close>

definition speedBoostActive :: "game \<Rightarrow> bool" where
  "speedBoostActive g \<longleftrightarrow> powerUpActive (state g) \<and> powerUpType (state g) = Some SpeedBoost"

definition invincibleActive :: "game \<Rightarrow> bool" where
  "invincibleActive g \<longleftrightarrow> powerUpActive (state g) \<and> powerUpType (state g) = Some Invincible"

definition wallPassActive :: "game \<Rightarrow> bool" where
  "wallPassActive g \<longleftrightarrow> powerUpActive (state g) \<and> powerUpType (state g) = Some WallPass"

definition with_foodEaten :: "nat \<Rightarrow> game \<Rightarrow> game" where
  "with_foodEaten n g = g\<lparr>state := (state g)\<lparr>foodEaten := n\<rparr>\<rparr>"

text \<open>
  \<open>commitDirection\<close>: the first statement of \<open>gameLoop\<close>. \<open>collisionRule g h rest\<close>: the
  collision rule of the specification for a head \<open>h\<close> in front of the cells \<open>rest\<close>: a wall hit
  without wallPass, a hit of another body cell without invincible, or, in obstacle mode,
  a hit of an obstacle without invincible.
\<close>

definition commitDirection :: "game \<Rightarrow> game" where
  "commitDirection g = g\<lparr>snake := (snake g)\<lparr>direction := nextDirection (snake g)\<rparr>\<rparr>"

definition collisionRule :: "game \<Rightarrow> cell \<Rightarrow> cell list \<Rightarrow> bool" where
  "collisionRule g h rest \<longleftrightarrow>
     (\<not> wallPassActive g \<and> \<not> inGrid (config g) h) \<or>
     (\<not> invincibleActive g \<and> h \<in> set rest) \<or>
     (mode (config g) = ''obstacle'' \<and> \<not> invincibleActive g \<and> h \<in> set (obstacles g))"

text \<open>
  \<open>sample m b f obs\<close>: a started engine with the default configuration in mode \<open>m\<close>, the
  snake \<open>b\<close> heading right, the food \<open>f\<close> and the obstacles \<open>obs\<close>.
\<close>

definition sample :: "string \<Rightarrow> cell list \<Rightarrow> food \<Rightarrow> cell list \<Rightarrow> game" where
  "sample m b f obs =
     start ((new_game (default_config\<lparr>mode := m\<rparr>))
              \<lparr>snake := \<lparr>body = b, direction = ''right'', nextDirection = ''right'',
                         growing = False\<rparr>,
               food := f, obstacles := obs\<rparr>)"

text \<open>
  Direction input: the four cardinal values, the reverse pairs, and the calls that
  \<open>changeDirection\<close> accepts for an engine (cardinal and not the reverse of the committed
  direction).
\<close>

definition cardinal :: "string \<Rightarrow> bool" where
  "cardinal d \<longleftrightarrow> d = ''up'' \<or> d = ''down'' \<or> d = ''left'' \<or> d = ''right''"

definition reverse_of :: "string \<Rightarrow> string \<Rightarrow> bool" where
  "reverse_of d cur \<longleftrightarrow>
     (d = ''up'' \<and> cur = ''down'') \<or> (d = ''down'' \<and> cur = ''up'') \<or>
     (d = ''left'' \<and> cur = ''right'') \<or> (d = ''right'' \<and> cur = ''left'')"

definition accepted :: "game \<Rightarrow> string \<Rightarrow> bool" where
  "accepted g d \<longleftrightarrow> cardinal d \<and> \<not> reverse_of d (direction (snake g))"

section \<open>Lemmas\<close>

subsection \<open>Collision searches\<close>

lemma collidesFrom_iff: "collidesFrom p cs \<longleftrightarrow> occupies cs p"
  by (induction cs) (auto simp: occupies_def checkCollision_Utils_def)

lemma checkCollisionWithArray_False: "checkCollisionWithArray p cs False \<longleftrightarrow> occupies cs p"
  by (simp add: checkCollisionWithArray_def collidesFrom_iff)

lemma list_ex_checkCollision: "list_ex (checkCollision_Utils p) cs \<longleftrightarrow> occupies cs p"
  by (auto simp: list_ex_iff occupies_def checkCollision_Utils_def)

lemma headHits_iff: "headHits h cs \<longleftrightarrow> occupies cs h"
  by (induction cs) (auto simp: occupies_def)

lemma getRandomInt_range:
  assumes "0 \<le> r" "r < 1" "0 < n"
  shows "0 \<le> getRandomInt 0 (n - 1) r \<and> getRandomInt 0 (n - 1) r < n"
proof -
  have a: "0 \<le> r * real_of_int n" using assms by simp
  have "r * real_of_int n < 1 * real_of_int n"
    using assms by (intro mult_strict_right_mono) simp_all
  then have b: "r * real_of_int n < real_of_int n" by simp
  from a have "0 \<le> \<lfloor>r * real_of_int n\<rfloor>" by simp
  moreover from b have "\<lfloor>r * real_of_int n\<rfloor> < n" by (simp add: floor_less_iff)
  ultimately show ?thesis by (simp add: getRandomInt_def)
qed

lemma unit_draws_stl: "unit_draws s \<Longrightarrow> unit_draws (stl s)"
  unfolding unit_draws_def by (metis stl_sset)

lemma unit_draws_shd: "unit_draws s \<Longrightarrow> 0 \<le> shd s \<and> shd s < 1"
  unfolding unit_draws_def by (simp add: shd_sset)

lemma spawnFood_loop_unfold:
  "spawnFood_loop b g s =
     (let p = \<lparr>xc = getRandomInt 0 (width (config g) - 1) (shd s),
               yc = getRandomInt 0 (height (config g) - 1) (shd (stl s)),
               type = (if b then Special else Normal)\<rparr>
      in if \<not> occupies (body (snake g)) p \<and> \<not> occupies (obstacles g) p
         then Some (g\<lparr>food := p\<rparr>, stl (stl s))
         else spawnFood_loop b (g\<lparr>food := p\<rparr>) (stl (stl s)))"
  by (subst spawnFood_loop.simps)
     (simp add: Let_def checkCollisionWithArray_False list_ex_checkCollision)

lemma spawnFood_loop_result:
  assumes "spawnFood_loop b g s = Some y"
  shows "fst y = g\<lparr>food := food (fst y)\<rparr> \<and> type (food (fst y)) = (if b then Special else Normal) \<and>
     \<not> occupies (body (snake g)) (food (fst y)) \<and> \<not> occupies (obstacles g) (food (fst y)) \<and>
     (unit_draws s \<longrightarrow> 0 < width (config g) \<longrightarrow> 0 < height (config g) \<longrightarrow>
        inGrid (config g) (food (fst y)))"
proof (rule spawnFood_loop.raw_induct [where P = "\<lambda>b g s y.
     fst y = g\<lparr>food := food (fst y)\<rparr> \<and> type (food (fst y)) = (if b then Special else Normal) \<and>
     \<not> occupies (body (snake g)) (food (fst y)) \<and> \<not> occupies (obstacles g) (food (fst y)) \<and>
     (unit_draws s \<longrightarrow> 0 < width (config g) \<longrightarrow> 0 < height (config g) \<longrightarrow>
        inGrid (config g) (food (fst y)))", OF _ assms], goal_cases)
  case (1 spawn b g s y)
  let ?p = "\<lparr>xc = getRandomInt 0 (width (config g) - 1) (shd s),
             yc = getRandomInt 0 (height (config g) - 1) (shd (stl s)),
             type = (if b then Special else Normal)\<rparr>"
  show ?case
  proof (cases "\<not> occupies (body (snake g)) ?p \<and> \<not> occupies (obstacles g) ?p")
    case True
    with 1(2) have y: "y = (g\<lparr>food := ?p\<rparr>, stl (stl s))"
      by (simp add: Let_def checkCollisionWithArray_False list_ex_checkCollision split: if_splits)
    have "unit_draws s \<Longrightarrow> 0 < width (config g) \<Longrightarrow> 0 < height (config g) \<Longrightarrow>
            inGrid (config g) ?p"
      using getRandomInt_range [of "shd s" "width (config g)"]
            getRandomInt_range [of "shd (stl s)" "height (config g)"]
            unit_draws_shd [of s] unit_draws_shd [OF unit_draws_stl, of s]
      by (simp add: inGrid_def)
    with True y show ?thesis by simp
  next
    case False
    with 1(2) have "spawn b (g\<lparr>food := ?p\<rparr>) (stl (stl s)) = Some y"
      by (simp add: Let_def checkCollisionWithArray_False list_ex_checkCollision split: if_splits)
    from 1(1) [OF this]
    have ih: "fst y = g\<lparr>food := ?p\<rparr>\<lparr>food := food (fst y)\<rparr>"
      "type (food (fst y)) = (if b then Special else Normal)"
      "\<not> occupies (body (snake g)) (food (fst y))" "\<not> occupies (obstacles g) (food (fst y))"
      "unit_draws (stl (stl s)) \<Longrightarrow> 0 < width (config g) \<Longrightarrow> 0 < height (config g) \<Longrightarrow>
         inGrid (config g) (food (fst y))"
      by simp_all
    from ih(1) have "fst y = g\<lparr>food := food (fst y)\<rparr>" by simp
    with ih(2-5) show ?thesis
      by (blast dest: unit_draws_stl)
  qed
qed





lemma spawnObstacle_loop_unfold:
  "spawnObstacle_loop g s =
     (let p = \<lparr>xc = getRandomInt 0 (width (config g) - 1) (shd s),
               yc = getRandomInt 0 (height (config g) - 1) (shd (stl s))\<rparr>
      in if \<not> occupies (body (snake g)) p \<and> \<not> checkCollision_Utils p (food g) \<and>
            \<not> occupies (obstacles g) p
         then Some (p, stl (stl s))
         else spawnObstacle_loop g (stl (stl s)))"
  by (subst spawnObstacle_loop.simps)
     (simp add: Let_def checkCollisionWithArray_False list_ex_checkCollision)

lemma spawnObstacle_loop_result:
  assumes "spawnObstacle_loop g s = Some y"
  shows "\<not> occupies (body (snake g)) (fst y) \<and> \<not> checkCollision_Utils (fst y) (food g) \<and>
         \<not> occupies (obstacles g) (fst y) \<and>
         (unit_draws s \<longrightarrow> 0 < width (config g) \<longrightarrow> 0 < height (config g) \<longrightarrow>
            inGrid (config g) (fst y))"
proof (rule spawnObstacle_loop.raw_induct [where P = "\<lambda>g s y.
     \<not> occupies (body (snake g)) (fst y) \<and> \<not> checkCollision_Utils (fst y) (food g) \<and>
         \<not> occupies (obstacles g) (fst y) \<and>
         (unit_draws s \<longrightarrow> 0 < width (config g) \<longrightarrow> 0 < height (config g) \<longrightarrow>
            inGrid (config g) (fst y))", OF _ assms], goal_cases)
  case (1 spawn g s y)
  let ?p = "\<lparr>xc = getRandomInt 0 (width (config g) - 1) (shd s),
             yc = getRandomInt 0 (height (config g) - 1) (shd (stl s))\<rparr>"
  show ?case
  proof (cases "\<not> occupies (body (snake g)) ?p \<and> \<not> checkCollision_Utils ?p (food g) \<and>
                \<not> occupies (obstacles g) ?p")
    case True
    with 1(2) have y: "y = (?p, stl (stl s))"
      by (simp add: Let_def checkCollisionWithArray_False list_ex_checkCollision split: if_splits)
    have "unit_draws s \<Longrightarrow> 0 < width (config g) \<Longrightarrow> 0 < height (config g) \<Longrightarrow>
            inGrid (config g) ?p"
      using getRandomInt_range [of "shd s" "width (config g)"]
            getRandomInt_range [of "shd (stl s)" "height (config g)"]
            unit_draws_shd [of s] unit_draws_shd [OF unit_draws_stl, of s]
      by (simp add: inGrid_def)
    with True y show ?thesis by simp
  next
    case False
    with 1(2) have "spawn g (stl (stl s)) = Some y"
      by (simp add: Let_def checkCollisionWithArray_False list_ex_checkCollision split: if_splits)
    from 1(1) [OF this] show ?thesis
      by (blast dest: unit_draws_stl)
  qed
qed












subsection \<open>What the spawn operations change\<close>

lemma spawnFood_Some:
  assumes "spawnFood g s = Some (g', s')"
  shows "config g' = config g" "state g' = state g" "snake g' = snake g"
    "obstacles g' = obstacles g" "gameLoopInterval g' = gameLoopInterval g"
    "gameTimeInterval g' = gameTimeInterval g"
    and "type (food g') = (if shd s < specialFoodChance (config g) then Special else Normal)"
    and "specialFoodTimer g' = (if shd s < specialFoodChance (config g)
                                then Some (specialFoodDuration (config g)) else None)"
    and "\<not> occupies (body (snake g)) (food g')"
    and "\<not> occupies (obstacles g) (food g')"
proof -
  let ?b = "shd s < specialFoodChance (config g)"
  from assms obtain g1 s1 where
    loop: "spawnFood_loop ?b (g\<lparr>specialFoodTimer := None\<rparr>) (stl s) = Some (g1, s1)"
    and g': "g' = (if ?b then g1\<lparr>specialFoodTimer := Some (specialFoodDuration (config g1))\<rparr>
                   else g1)"
    by (auto simp: spawnFood_def Let_def bind_eq_Some_conv)
  from spawnFood_loop_result [OF loop]
  have e: "g1 = g\<lparr>specialFoodTimer := None, food := food g1\<rparr>"
    and r: "type (food g1) = (if ?b then Special else Normal)"
    "\<not> occupies (body (snake g)) (food g1)" "\<not> occupies (obstacles g) (food g1)"
    by simp_all
  have p: "config g1 = config g" "state g1 = state g" "snake g1 = snake g"
    "obstacles g1 = obstacles g" "gameLoopInterval g1 = gameLoopInterval g"
    "gameTimeInterval g1 = gameTimeInterval g" "specialFoodTimer g1 = None"
    using arg_cong [OF e, of config] arg_cong [OF e, of state] arg_cong [OF e, of snake]
      arg_cong [OF e, of obstacles] arg_cong [OF e, of gameLoopInterval]
      arg_cong [OF e, of gameTimeInterval] arg_cong [OF e, of specialFoodTimer]
    by simp_all
  show "config g' = config g" "state g' = state g" "snake g' = snake g"
    "obstacles g' = obstacles g" "gameLoopInterval g' = gameLoopInterval g"
    "gameTimeInterval g' = gameTimeInterval g"
    using g' p by simp_all
  show "type (food g') = (if ?b then Special else Normal)"
    using g' r(1) by simp
  show "specialFoodTimer g' = (if ?b then Some (specialFoodDuration (config g)) else None)"
    using g' p by simp
  show "\<not> occupies (body (snake g)) (food g')" "\<not> occupies (obstacles g) (food g')"
    using g' r(2,3) by simp_all
qed

lemma spawnObstacle_Some:
  assumes "spawnObstacle g s = Some (g', s')"
  shows "\<exists>c. g' = g\<lparr>obstacles := obstacles g @ [c]\<rparr> \<and> \<not> occupies (body (snake g)) c \<and>
             \<not> checkCollision_Utils c (food g) \<and> \<not> occupies (obstacles g) c"
proof -
  from assms obtain c where loop: "spawnObstacle_loop g s = Some (c, s')"
    and g': "g' = g\<lparr>obstacles := obstacles g @ [c]\<rparr>"
    by (auto simp: spawnObstacle_def split: bind_splits)
  from spawnObstacle_loop_result [OF loop] g' show ?thesis by auto
qed

lemma spawnObstacle_frame:
  assumes "spawnObstacle g s = Some (g', s')"
  shows "config g' = config g" "state g' = state g" "snake g' = snake g" "food g' = food g"
    "gameLoopInterval g' = gameLoopInterval g" "gameTimeInterval g' = gameTimeInterval g"
    "specialFoodTimer g' = specialFoodTimer g" "length (obstacles g') = Suc (length (obstacles g))"
  using spawnObstacle_Some [OF assms] by auto

lemma activatePowerUp_frame:
  assumes "activatePowerUp now g s = (g', s')"
  shows "config g' = config g" "snake g' = snake g" "food g' = food g"
    "obstacles g' = obstacles g" "gameLoopInterval g' = gameLoopInterval g"
    "running (state g') = running (state g)" "gameOver (state g') = gameOver (state g)"
    "paused (state g') = paused (state g)" "score (state g') = score (state g)"
    "foodEaten (state g') = foodEaten (state g)"
  using assms by (auto simp: activatePowerUp_def Let_def)

subsection \<open>Food consumption\<close>

lemma checkFood_empty: "body (snake g) = [] \<Longrightarrow> checkFood now g s = Some (Inl TypeError)"
  by (simp add: checkFood_def)

lemma checkFood_miss:
  assumes "body (snake g) = h # rest" "\<not> (xc h = xc (food g) \<and> yc h = yc (food g))"
  shows "checkFood now g s = Some (Inr (g, s))"
  using assms by (cases "xc h = xc (food g)") (simp_all add: checkFood_def)

lemma checkFood_hit:
  assumes b: "body (snake g) = h # rest" and hit: "xc h = xc (food g) \<and> yc h = yc (food g)"
    and res: "checkFood now g s = Some r"
  shows "\<exists>g' s'. r = Inr (g', s') \<and>
           snake g' = (snake g)\<lparr>growing := True\<rparr> \<and> config g' = config g \<and>
           running (state g') = running (state g) \<and> gameOver (state g') = gameOver (state g) \<and>
           paused (state g') = paused (state g) \<and>
           foodEaten (state g') = Suc (foodEaten (state g)) \<and>
           score (state g') = score (state g) + (if type (food g) = Special then 5 else 1) \<and>
           gameLoopInterval g' =
             (if gameLoopInterval g \<noteq> None then Some (getCurrentSpeed g') else None)"
proof -
  define g2 where "g2 = (addScore (if type (food g) = Special then 5 else 1) g)
     \<lparr>state := (state (addScore (if type (food g) = Special then 5 else 1) g))
        \<lparr>foodEaten := foodEaten (state (addScore (if type (food g) = Special then 5 else 1) g)) + 1\<rparr>\<rparr>"
  define p3 where "p3 = (if type (food g2) = Special
               then activatePowerUp now
                      (g2\<lparr>state := (state g2)
                            \<lparr>specialFoodEaten := specialFoodEaten (state g2) + 1\<rparr>\<rparr>) s
               else (g2, s))"
  have g2: "config g2 = config g" "snake g2 = snake g" "gameLoopInterval g2 = gameLoopInterval g"
    "running (state g2) = running (state g)" "gameOver (state g2) = gameOver (state g)"
    "paused (state g2) = paused (state g)" "foodEaten (state g2) = Suc (foodEaten (state g))"
    "score (state g2) = score (state g) + (if type (food g) = Special then 5 else 1)"
    by (simp_all add: g2_def addScore_def)
  obtain g3 s3 where p3: "p3 = (g3, s3)" by (cases p3)
  define g4 where "g4 = g3\<lparr>snake := (snake g3)\<lparr>growing := True\<rparr>\<rparr>"
  have g3: "config g3 = config g" "snake g3 = snake g" "gameLoopInterval g3 = gameLoopInterval g"
    "running (state g3) = running (state g)" "gameOver (state g3) = gameOver (state g)"
    "paused (state g3) = paused (state g)" "foodEaten (state g3) = Suc (foodEaten (state g))"
    "score (state g3) = score (state g) + (if type (food g) = Special then 5 else 1)"
    using p3 g2 activatePowerUp_frame [of now
        "g2\<lparr>state := (state g2)\<lparr>specialFoodEaten := specialFoodEaten (state g2) + 1\<rparr>\<rparr>" s g3 s3]
    by (auto simp: p3_def split: if_splits)
  have g4: "config g4 = config g" "snake g4 = (snake g)\<lparr>growing := True\<rparr>"
    "gameLoopInterval g4 = gameLoopInterval g" "state g4 = state g3"
    using g3 by (simp_all add: g4_def)
  have "checkFood now g s = (case p3 of (g3, s3) \<Rightarrow> do {
            (g5, s5) \<leftarrow> spawnFood (g3\<lparr>snake := (snake g3)\<lparr>growing := True\<rparr>\<rparr>) s3;
            (g6, s6) \<leftarrow> (if mode (config g5) = ''obstacle''
                         then (if shd s5 < 0.3 then spawnObstacle g5 (stl s5)
                               else Some (g5, stl s5))
                         else Some (g5, s5));
            Some (Inr (if gameLoopInterval g6 \<noteq> None
                       then g6\<lparr>gameLoopInterval := Some (getCurrentSpeed g6)\<rparr>
                       else g6, s6))
          })"
    using b hit by (simp add: checkFood_def p3_def g2_def Let_def)
  with res have "do {
            (g5, s5) \<leftarrow> spawnFood g4 s3;
            (g6, s6) \<leftarrow> (if mode (config g5) = ''obstacle''
                         then (if shd s5 < 0.3 then spawnObstacle g5 (stl s5)
                               else Some (g5, stl s5))
                         else Some (g5, s5));
            Some (Inr (if gameLoopInterval g6 \<noteq> None
                       then g6\<lparr>gameLoopInterval := Some (getCurrentSpeed g6)\<rparr>
                       else g6, s6))
          } = Some r"
    by (simp add: p3 g4_def)
  then obtain g5 s5 g6 s6 where
    five: "spawnFood g4 s3 = Some (g5, s5)"
    and six: "(if mode (config g5) = ''obstacle''
                         then (if shd s5 < 0.3 then spawnObstacle g5 (stl s5)
                               else Some (g5, stl s5))
                         else Some (g5, s5)) = Some (g6, s6)"
    and r: "r = Inr (if gameLoopInterval g6 \<noteq> None
                       then g6\<lparr>gameLoopInterval := Some (getCurrentSpeed g6)\<rparr>
                       else g6, s6)"
    by (auto simp: bind_eq_Some_conv)
  note f5 = spawnFood_Some(1-6) [OF five]
  have f6: "config g6 = config g5" "state g6 = state g5" "snake g6 = snake g5"
    "gameLoopInterval g6 = gameLoopInterval g5"
    using six spawnObstacle_frame [of g5 "stl s5" g6 s6] by (auto split: if_splits)
  have g6: "config g6 = config g" "snake g6 = (snake g)\<lparr>growing := True\<rparr>"
    "state g6 = state g3" "gameLoopInterval g6 = gameLoopInterval g"
    using f5 f6 g4 by simp_all
  have sp: "getCurrentSpeed (g6\<lparr>gameLoopInterval := t\<rparr>) = getCurrentSpeed g6" for t
    by (simp add: getCurrentSpeed_def)
  show ?thesis
  proof (cases "gameLoopInterval g")
    case None
    then have "r = Inr (g6, s6)" using r g6 by simp
    then show ?thesis using g6 g3 None by simp
  next
    case (Some t)
    then have "r = Inr (g6\<lparr>gameLoopInterval := Some (getCurrentSpeed g6)\<rparr>, s6)"
      using r g6 by simp
    then show ?thesis using g6 g3 Some by (simp add: sp)
  qed
qed

subsection \<open>The tick\<close>

lemma occupies_cell: "occupies cs (h :: cell) \<longleftrightarrow> h \<in> set cs"
proof -
  have eq: "c = h" if "xc h = xc c" "yc h = yc c" for c :: cell
    using that by (cases c, cases h) simp
  show ?thesis
    unfolding occupies_def using eq by blast
qed

lemma checkCollision_iff:
  assumes "body (snake g) = h # rest"
  shows "checkCollision g = Inr (collisionRule g h rest)"
  using assms
  by (auto simp: checkCollision_def collisionRule_def wallPassActive_def invincibleActive_def
      inGrid_def headHits_iff occupies_cell)

lemma checkCollision_empty:
  "body (snake g) = [] \<Longrightarrow> checkCollision g = Inl TypeError \<or> checkCollision g = Inr False"
  by (simp add: checkCollision_def)

lemma moveSnake_Cons:
  assumes "body (snake g) = h # rest"
  shows "moveSnake g =
           Inr (if \<not> growing (snake g)
                then g\<lparr>snake := (snake g)\<lparr>body := butlast (newHead g h # h # rest)\<rparr>\<rparr>
                else g\<lparr>snake := (snake g)\<lparr>body := newHead g h # h # rest, growing := False\<rparr>\<rparr>)"
  by (simp add: moveSnake_def assms Let_def)

lemma moveSnake_Inr:
  assumes "moveSnake g = Inr g2"
  shows "\<exists>b. g2 = g\<lparr>snake := (snake g)\<lparr>body := b, growing := False\<rparr>\<rparr> \<and>
             length b = length (body (snake g)) + (if growing (snake g) then 1 else 0)"
proof (cases "body (snake g)")
  case Nil
  with assms have "\<not> growing (snake g)" "g2 = g"
    by (simp_all add: moveSnake_def split: if_splits)
  with Nil show ?thesis
    by (intro exI [of _ "[]"]) simp
next
  case (Cons h rest)
  show ?thesis
  proof (cases "growing (snake g)")
    case True
    with assms moveSnake_Cons [OF Cons]
    have "g2 = g\<lparr>snake := (snake g)\<lparr>body := newHead g h # h # rest, growing := False\<rparr>\<rparr>"
      by simp
    with True Cons show ?thesis
      by (intro exI [of _ "newHead g h # h # rest"]) simp
  next
    case False
    with assms moveSnake_Cons [OF Cons]
    have "g2 = g\<lparr>snake := (snake g)\<lparr>body := butlast (newHead g h # h # rest)\<rparr>\<rparr>"
      by simp
    moreover have "(snake g)\<lparr>body := b\<rparr> = (snake g)\<lparr>body := b, growing := False\<rparr>" for b
      using False by (intro snake.equality) simp_all
    ultimately show ?thesis
      using False Cons
      by (intro exI [of _ "butlast (newHead g h # h # rest)"]) (simp del: butlast.simps)
  qed
qed

lemma moveSnake_frame:
  assumes "moveSnake g = Inr g2"
  shows "config g2 = config g" "state g2 = state g" "food g2 = food g"
    "obstacles g2 = obstacles g" "gameLoopInterval g2 = gameLoopInterval g"
    "gameTimeInterval g2 = gameTimeInterval g" "specialFoodTimer g2 = specialFoodTimer g"
    "direction (snake g2) = direction (snake g)"
    "nextDirection (snake g2) = nextDirection (snake g)"
    "growing (snake g2) = False"
    "length (body (snake g2)) = length (body (snake g)) + (if growing (snake g) then 1 else 0)"
proof -
  from moveSnake_Inr [OF assms] obtain b where
    e: "g2 = g\<lparr>snake := (snake g)\<lparr>body := b, growing := False\<rparr>\<rparr>"
    and l: "length b = length (body (snake g)) + (if growing (snake g) then 1 else 0)"
    by blast
  show "config g2 = config g" "state g2 = state g" "food g2 = food g"
    "obstacles g2 = obstacles g" "gameLoopInterval g2 = gameLoopInterval g"
    "gameTimeInterval g2 = gameTimeInterval g" "specialFoodTimer g2 = specialFoodTimer g"
    "direction (snake g2) = direction (snake g)"
    "nextDirection (snake g2) = nextDirection (snake g)"
    "growing (snake g2) = False"
    by (simp_all add: e)
  show "length (body (snake g2)) = length (body (snake g)) + (if growing (snake g) then 1 else 0)"
    using l by (simp add: e)
qed

lemma gameLoop_unfold:
  "gameLoop now g s =
     (case moveSnake (commitDirection g) of
        Inl e \<Rightarrow> Some (Inl e)
      | Inr g2 \<Rightarrow>
          (case checkCollision g2 of
             Inl e \<Rightarrow> Some (Inl e)
           | Inr True \<Rightarrow> Some (Inr (endGame g2, s))
           | Inr False \<Rightarrow>
               (case checkFood now g2 s of
                  None \<Rightarrow> None
                | Some (Inl e) \<Rightarrow> Some (Inl e)
                | Some (Inr (g3, s3)) \<Rightarrow> Some (Inr (checkPowerUps now g3, s3)))))"
  by (simp add: gameLoop_def commitDirection_def Let_def)

lemma gameLoop_empty:
  assumes "moveSnake (commitDirection g) = Inr g2" "body (snake g2) = []"
  shows "gameLoop now g s = Some (Inl TypeError)"
  using assms checkCollision_empty [OF assms(2)]
  by (auto simp: gameLoop_unfold checkFood_empty)

lemma commitDirection_frame:
  "config (commitDirection g) = config g" "state (commitDirection g) = state g"
  "food (commitDirection g) = food g" "obstacles (commitDirection g) = obstacles g"
  "gameLoopInterval (commitDirection g) = gameLoopInterval g"
  "body (snake (commitDirection g)) = body (snake g)"
  "growing (snake (commitDirection g)) = growing (snake g)"
  "direction (snake (commitDirection g)) = nextDirection (snake g)"
  "nextDirection (snake (commitDirection g)) = nextDirection (snake g)"
  by (simp_all add: commitDirection_def)

lemma collisionRule_cong:
  "config g' = config g \<Longrightarrow> state g' = state g \<Longrightarrow> obstacles g' = obstacles g \<Longrightarrow>
   collisionRule g' h rest = collisionRule g h rest"
  by (simp add: collisionRule_def wallPassActive_def invincibleActive_def)

lemma gameLoop_collision:
  assumes "moveSnake (commitDirection g) = Inr g2" "body (snake g2) = h # rest"
    "collisionRule g h rest"
  shows "gameLoop now g s = Some (Inr (endGame g2, s))"
proof -
  have "collisionRule g2 h rest"
    using assms(3) moveSnake_frame(1,2,4) [OF assms(1)] collisionRule_cong [of g2 g h rest]
    by (simp add: commitDirection_frame)
  then show ?thesis
    using assms(1) checkCollision_iff [OF assms(2)] by (simp add: gameLoop_unfold)
qed

lemma gameLoop_no_collision:
  assumes "moveSnake (commitDirection g) = Inr g2" "body (snake g2) = h # rest"
    "\<not> collisionRule g h rest"
  shows "gameLoop now g s =
           (case checkFood now g2 s of
              None \<Rightarrow> None
            | Some (Inl e) \<Rightarrow> Some (Inl e)
            | Some (Inr (g3, s3)) \<Rightarrow> Some (Inr (checkPowerUps now g3, s3)))"
proof -
  have "\<not> collisionRule g2 h rest"
    using assms(3) moveSnake_frame(1,2,4) [OF assms(1)] collisionRule_cong [of g2 g h rest]
    by (simp add: commitDirection_frame)
  then show ?thesis
    using assms(1) checkCollision_iff [OF assms(2)] by (simp add: gameLoop_unfold)
qed

lemma checkFood_Some:
  assumes "body (snake g) = h # rest" "checkFood now g s = Some r"
  shows "\<exists>g' s'. r = Inr (g', s') \<and> config g' = config g \<and>
    body (snake g') = body (snake g) \<and> direction (snake g') = direction (snake g) \<and>
    nextDirection (snake g') = nextDirection (snake g) \<and>
    growing (snake g') = (growing (snake g) \<or> (xc h = xc (food g) \<and> yc h = yc (food g))) \<and>
    running (state g') = running (state g) \<and> gameOver (state g') = gameOver (state g) \<and>
    paused (state g') = paused (state g)"
proof (cases "xc h = xc (food g) \<and> yc h = yc (food g)")
  case True
  from checkFood_hit [OF assms(1) True assms(2)] obtain g' s' where
    "r = Inr (g', s')" "snake g' = (snake g)\<lparr>growing := True\<rparr>" "config g' = config g"
    "running (state g') = running (state g)" "gameOver (state g') = gameOver (state g)"
    "paused (state g') = paused (state g)"
    by blast
  with True show ?thesis by simp
next
  case False
  with assms have "r = Inr (g, s)" by (simp add: checkFood_miss)
  with False show ?thesis by auto
qed

lemma checkPowerUps_frame:
  "config (checkPowerUps now g) = config g" "snake (checkPowerUps now g) = snake g"
  "food (checkPowerUps now g) = food g" "obstacles (checkPowerUps now g) = obstacles g"
  "gameLoopInterval (checkPowerUps now g) = gameLoopInterval g"
  "running (state (checkPowerUps now g)) = running (state g)"
  "gameOver (state (checkPowerUps now g)) = gameOver (state g)"
  "paused (state (checkPowerUps now g)) = paused (state g)"
  "score (state (checkPowerUps now g)) = score (state g)"
  "foodEaten (state (checkPowerUps now g)) = foodEaten (state g)"
  by (simp_all add: checkPowerUps_def)

lemma endGame_running:
  assumes "running (state g)"
  shows "state (endGame g) = (state g)\<lparr>running := False, gameOver := True\<rparr>"
    "config (endGame g) = config g" "snake (endGame g) = snake g" "food (endGame g) = food g"
    "obstacles (endGame g) = obstacles g" "gameLoopInterval (endGame g) = None"
    "gameTimeInterval (endGame g) = None" "specialFoodTimer (endGame g) = None"
  using assms by (simp_all add: endGame_def clearTimers_def)

subsection \<open>Evaluating the search on concrete draws\<close>

lemma spawnFood_loop_hit:
  "\<not> occupies (body (snake g))
       \<lparr>xc = getRandomInt 0 (width (config g) - 1) (shd s),
        yc = getRandomInt 0 (height (config g) - 1) (shd (stl s))\<rparr> \<Longrightarrow>
   \<not> occupies (obstacles g)
       \<lparr>xc = getRandomInt 0 (width (config g) - 1) (shd s),
        yc = getRandomInt 0 (height (config g) - 1) (shd (stl s))\<rparr> \<Longrightarrow>
   spawnFood_loop b g s =
     Some (g\<lparr>food := \<lparr>xc = getRandomInt 0 (width (config g) - 1) (shd s),
                        yc = getRandomInt 0 (height (config g) - 1) (shd (stl s)),
                        type = (if b then Special else Normal)\<rparr>\<rparr>, stl (stl s))"
  by (subst spawnFood_loop_unfold) (simp add: Let_def occupies_def)

lemma spawnFood_loop_miss:
  "occupies (body (snake g))
       \<lparr>xc = getRandomInt 0 (width (config g) - 1) (shd s),
        yc = getRandomInt 0 (height (config g) - 1) (shd (stl s))\<rparr> \<or>
   occupies (obstacles g)
       \<lparr>xc = getRandomInt 0 (width (config g) - 1) (shd s),
        yc = getRandomInt 0 (height (config g) - 1) (shd (stl s))\<rparr> \<Longrightarrow>
   spawnFood_loop b g s =
     spawnFood_loop b (g\<lparr>food := \<lparr>xc = getRandomInt 0 (width (config g) - 1) (shd s),
                        yc = getRandomInt 0 (height (config g) - 1) (shd (stl s)),
                        type = (if b then Special else Normal)\<rparr>\<rparr>) (stl (stl s))"
  by (subst spawnFood_loop_unfold) (auto simp add: Let_def occupies_def)

lemmas eval_defs = constructor_def init_def initSnake_def spawnFood_def
     merge_config_def default_config_def no_opts_def new_game_def Let_def getRandomInt_def
     resetState_def clearTimers_def initial_state_def upt_rec occupies_def
     start_def getCurrentSpeed_def gameLoop_def moveSnake_def newHead_def checkCollision_def
     checkFood_def addScore_def checkPowerUps_def endGame_def activatePowerUp_def

lemmas sample_defs = sample_def start_def new_game_def default_config_def initial_state_def
  getCurrentSpeed_def Let_def commitDirection_def moveSnake_def newHead_def

subsection \<open>Direction input\<close>

lemma changeDirection_accepted:
  "accepted g d \<Longrightarrow> changeDirection d g = g\<lparr>snake := (snake g)\<lparr>nextDirection := d\<rparr>\<rparr>"
  unfolding accepted_def cardinal_def reverse_of_def changeDirection_def by auto

lemma changeDirection_rejected: "\<not> accepted g d \<Longrightarrow> changeDirection d g = g"
  unfolding accepted_def cardinal_def reverse_of_def changeDirection_def by auto

lemma changeDirection_direction: "direction (snake (changeDirection d g)) = direction (snake g)"
  by (simp add: changeDirection_def)

lemma accepted_changeDirection: "accepted (changeDirection d' g) d = accepted g d"
  by (simp add: accepted_def changeDirection_direction)

lemma fold_changeDirection:
  "direction (snake (fold changeDirection ds g)) = direction (snake g) \<and>
   nextDirection (snake (fold changeDirection ds g)) =
     (if filter (accepted g) ds = [] then nextDirection (snake g)
      else last (filter (accepted g) ds))"
proof (induction ds arbitrary: g)
  case Nil
  show ?case by simp
next
  case (Cons d ds)
  have acc: "accepted (changeDirection d g) = accepted g"
    by (rule ext) (rule accepted_changeDirection)
  show ?case
  proof (cases "accepted g d")
    case True
    with Cons [of "changeDirection d g"] show ?thesis
      by (simp add: acc changeDirection_direction) (simp add: changeDirection_accepted)
  next
    case False
    with Cons [of "changeDirection d g"] show ?thesis
      by (simp add: acc changeDirection_direction) (simp add: changeDirection_rejected)
  qed
qed

lemma gameLoop_direction:
  assumes "gameLoop now g s = Some (Inr (g', s'))"
  shows "direction (snake g') = nextDirection (snake g)"
proof -
  from assms obtain g2 where m: "moveSnake (commitDirection g) = Inr g2"
    by (cases "moveSnake (commitDirection g)") (simp_all add: gameLoop_unfold)
  from assms gameLoop_empty [OF m, of now s] obtain h rest where b: "body (snake g2) = h # rest"
    by (cases "body (snake g2)") simp_all
  have d2: "direction (snake g2) = nextDirection (snake g)"
    using moveSnake_frame(8) [OF m] by (simp add: commitDirection_frame)
  show ?thesis
  proof (cases "collisionRule g h rest")
    case True
    from assms gameLoop_collision [OF m b True, of now s] have "g' = endGame g2"
      by simp
    with d2 show ?thesis
      by (simp add: endGame_def clearTimers_def)
  next
    case False
    from assms gameLoop_no_collision [OF m b False, of now s]
    obtain r where cf: "checkFood now g2 s = Some r"
      by (cases "checkFood now g2 s") simp_all
    from checkFood_Some [OF b cf] obtain g3 s3 where
      g3: "r = Inr (g3, s3)" "direction (snake g3) = direction (snake g2)"
      by blast
    from assms gameLoop_no_collision [OF m b False, of now s] cf g3(1)
    have "g' = checkPowerUps now g3" by simp
    with g3(2) d2 show ?thesis
      by (simp add: checkPowerUps_frame)
  qed
qed

subsection \<open>The moved head\<close>

lemma newHead_wrap_inGrid:
  assumes "wallPassActive g" "inGrid (config g) h"
  shows "inGrid (config g) (newHead g h)"
  using assms
  by (auto simp: newHead_def Let_def inGrid_def wallPassActive_def)

lemma moveSnake_body:
  assumes "moveSnake g = Inr g2" "body (snake g2) = h # rest"
  shows "\<exists>h0 rest0. body (snake g) = h0 # rest0 \<and> h = newHead g h0 \<and>
           set rest \<subseteq> set (body (snake g))"
proof (cases "body (snake g)")
  case Nil
  with assms show ?thesis
    by (auto simp: moveSnake_def split: if_splits)
next
  case (Cons h0 rest0)
  have bl: "butlast (newHead g h0 # h0 # rest0) = newHead g h0 # butlast (h0 # rest0)"
    by simp
  from moveSnake_Cons [OF Cons] assms(1)
  have "body (snake g2) =
          newHead g h0 # (if \<not> growing (snake g) then butlast (h0 # rest0) else h0 # rest0)"
    unfolding bl by (cases "growing (snake g)") auto
  with assms(2) have "h = newHead g h0"
    and "rest = (if \<not> growing (snake g) then butlast (h0 # rest0) else h0 # rest0)"
    by simp_all
  moreover have "set (butlast (h0 # rest0)) \<subseteq> set (h0 # rest0)"
    by (meson in_set_butlastD subsetI)
  ultimately show ?thesis
    using Cons by (cases "growing (snake g)") (simp_all del: butlast.simps)
qed

lemma inGrid_cong: "config g' = config g \<Longrightarrow> inGrid (config g') c = inGrid (config g) c"
  by simp

subsection \<open>Concrete ticks\<close>

lemma food_tick:
  "gameLoop 0 (sample ''classic'' [\<lparr>xc = 15, yc = 10\<rparr>, \<lparr>xc = 14, yc = 10\<rparr>, \<lparr>xc = 13, yc = 10\<rparr>]
                \<lparr>xc = 16, yc = 10, type = Normal\<rparr> [])
     (1/2 ## 1/5 ## 1/5 ## s) =
   Some (Inr ((sample ''classic'' [\<lparr>xc = 16, yc = 10\<rparr>, \<lparr>xc = 15, yc = 10\<rparr>, \<lparr>xc = 14, yc = 10\<rparr>]
                \<lparr>xc = 6, yc = 4, type = Normal\<rparr> [])
              \<lparr>snake := \<lparr>body = [\<lparr>xc = 16, yc = 10\<rparr>, \<lparr>xc = 15, yc = 10\<rparr>, \<lparr>xc = 14, yc = 10\<rparr>],
                         direction = ''right'', nextDirection = ''right'', growing = True\<rparr>,
               state := initial_state\<lparr>running := True, score := 1, foodEaten := 1\<rparr>,
               gameLoopInterval := Some 148\<rparr>, s))"
  by (simp add: eval_defs sample_def spawnFood_loop_hit spawnFood_loop_miss)

lemma constructed_sample:
  "constructor no_opts (1/2 ## 11/20 ## 1/2 ## s) =
     Some ((initSnake (new_game default_config))\<lparr>food := \<lparr>xc = 16, yc = 10, type = Normal\<rparr>\<rparr>, s)"
  "start ((initSnake (new_game default_config))\<lparr>food := \<lparr>xc = 16, yc = 10, type = Normal\<rparr>\<rparr>) =
     sample ''classic'' [\<lparr>xc = 15, yc = 10\<rparr>, \<lparr>xc = 14, yc = 10\<rparr>, \<lparr>xc = 13, yc = 10\<rparr>]
                \<lparr>xc = 16, yc = 10, type = Normal\<rparr> []"
  by (simp_all add: eval_defs sample_def spawnFood_loop_hit spawnFood_loop_miss)

lemma turn_tick:
  "gameLoop 0 (fold changeDirection [''up'', ''left'', ''tilt'', ''down'']
       (sample ''classic'' [\<lparr>xc = 15, yc = 10\<rparr>, \<lparr>xc = 14, yc = 10\<rparr>, \<lparr>xc = 13, yc = 10\<rparr>]
          \<lparr>xc = 6, yc = 4, type = Normal\<rparr> [])) s =
   Some (Inr ((sample ''classic'' [\<lparr>xc = 15, yc = 11\<rparr>, \<lparr>xc = 15, yc = 10\<rparr>, \<lparr>xc = 14, yc = 10\<rparr>]
          \<lparr>xc = 6, yc = 4, type = Normal\<rparr> [])
        \<lparr>snake := \<lparr>body = [\<lparr>xc = 15, yc = 11\<rparr>, \<lparr>xc = 15, yc = 10\<rparr>, \<lparr>xc = 14, yc = 10\<rparr>],
                   direction = ''down'', nextDirection = ''down'', growing = False\<rparr>\<rparr>, s))"
  by (simp add: eval_defs sample_def changeDirection_def)

lemma edge_move:
  "moveSnake (commitDirection (sample ''classic'' [\<lparr>xc = 29, yc = 10\<rparr>, \<lparr>xc = 28, yc = 10\<rparr>, \<lparr>xc = 27, yc = 10\<rparr>]
        \<lparr>xc = 6, yc = 4, type = Normal\<rparr> [])) =
     Inr (sample ''classic'' [\<lparr>xc = 30, yc = 10\<rparr>, \<lparr>xc = 29, yc = 10\<rparr>, \<lparr>xc = 28, yc = 10\<rparr>]
        \<lparr>xc = 6, yc = 4, type = Normal\<rparr> [])"
  by (simp add: sample_defs)

lemma plain_move:
  "moveSnake (commitDirection (sample ''classic'' [\<lparr>xc = 15, yc = 10\<rparr>, \<lparr>xc = 14, yc = 10\<rparr>, \<lparr>xc = 13, yc = 10\<rparr>]
        \<lparr>xc = 6, yc = 4, type = Normal\<rparr> [])) =
     Inr (sample ''classic'' [\<lparr>xc = 16, yc = 10\<rparr>, \<lparr>xc = 15, yc = 10\<rparr>, \<lparr>xc = 14, yc = 10\<rparr>]
        \<lparr>xc = 6, yc = 4, type = Normal\<rparr> [])"
  by (simp add: sample_defs)

lemma plain_tick:
  "gameLoop 0 (sample ''classic'' [\<lparr>xc = 15, yc = 10\<rparr>, \<lparr>xc = 14, yc = 10\<rparr>, \<lparr>xc = 13, yc = 10\<rparr>]
        \<lparr>xc = 6, yc = 4, type = Normal\<rparr> []) s =
     Some (Inr (sample ''classic'' [\<lparr>xc = 16, yc = 10\<rparr>, \<lparr>xc = 15, yc = 10\<rparr>, \<lparr>xc = 14, yc = 10\<rparr>]
        \<lparr>xc = 6, yc = 4, type = Normal\<rparr> [], s))"
  by (simp add: eval_defs sample_def)

lemma spawnObstacle_loop_hit:
  "\<not> occupies (body (snake g))
       \<lparr>xc = getRandomInt 0 (width (config g) - 1) (shd s),
        yc = getRandomInt 0 (height (config g) - 1) (shd (stl s))\<rparr> \<Longrightarrow>
   \<not> checkCollision_Utils
       \<lparr>xc = getRandomInt 0 (width (config g) - 1) (shd s),
        yc = getRandomInt 0 (height (config g) - 1) (shd (stl s))\<rparr> (food g) \<Longrightarrow>
   \<not> occupies (obstacles g)
       \<lparr>xc = getRandomInt 0 (width (config g) - 1) (shd s),
        yc = getRandomInt 0 (height (config g) - 1) (shd (stl s))\<rparr> \<Longrightarrow>
   spawnObstacle_loop g s =
     Some (\<lparr>xc = getRandomInt 0 (width (config g) - 1) (shd s),
            yc = getRandomInt 0 (height (config g) - 1) (shd (stl s))\<rparr>, stl (stl s))"
  by (subst spawnObstacle_loop_unfold) (simp add: Let_def)

subsection \<open>A tick that returns\<close>

lemma fold_changeDirection_frame:
  "config (fold changeDirection ds g) = config g"
  "state (fold changeDirection ds g) = state g"
  "food (fold changeDirection ds g) = food g"
  "obstacles (fold changeDirection ds g) = obstacles g"
  "body (snake (fold changeDirection ds g)) = body (snake g)"
  "growing (snake (fold changeDirection ds g)) = growing (snake g)"
  by (induction ds arbitrary: g; simp add: changeDirection_def)+

lemma newHead_cong:
  "direction (snake a) = direction (snake b) \<Longrightarrow> state a = state b \<Longrightarrow> config a = config b \<Longrightarrow>
   newHead a h = newHead b h"
  by (simp only: newHead_def)

lemma gameLoop_returns_miss:
  assumes b: "body (snake g) = h0 # rest0"
    and miss: "\<not> (xc (newHead (commitDirection g) h0) = xc (food g) \<and>
                 yc (newHead (commitDirection g) h0) = yc (food g))"
  shows "\<exists>g' s'. gameLoop now g s = Some (Inr (g', s'))"
proof -
  have b1: "body (snake (commitDirection g)) = h0 # rest0"
    using b by (simp add: commitDirection_frame)
  obtain g2 where m: "moveSnake (commitDirection g) = Inr g2"
    using moveSnake_Cons [OF b1] by simp
  have "body (snake g2) \<noteq> []"
    using moveSnake_frame(11) [OF m] b1 by (auto split: if_splits)
  then obtain h rest where b2: "body (snake g2) = h # rest"
    by (cases "body (snake g2)") simp_all
  from moveSnake_body [OF m b2] b1 have h: "h = newHead (commitDirection g) h0"
    by simp
  have f: "food g2 = food g"
    using moveSnake_frame(3) [OF m] by (simp add: commitDirection_frame)
  show ?thesis
  proof (cases "collisionRule g h rest")
    case True
    from gameLoop_collision [OF m b2 True, of now s] show ?thesis by simp
  next
    case False
    have "checkFood now g2 s = Some (Inr (g2, s))"
      using miss by (intro checkFood_miss [OF b2]) (simp add: h f)
    with gameLoop_no_collision [OF m b2 False, of now s] show ?thesis by simp
  qed
qed

section \<open>Claims\<close>

subsection \<open>The spawn search\<close>




subsection \<open>The tick interval\<close>

text \<open>
  Claim C5, as amended. The interval is \<open>max(maxSpeed, speed - foodEaten * speedIncrease)\<close>,
  the difference multiplied by 0.7 before the clamp while the speed boost is active; it
  never falls below \<open>maxSpeed\<close> (the spec's minInterval); and when \<open>speedIncrease\<close> is not
  negative it does not increase as \<open>foodEaten\<close> increases, the power-up state being fixed.
\<close>

theorem interval_formula:
  "getCurrentSpeed g =
     max (maxSpeed (config g))
         ((if speedBoostActive g then 0.7 else 1) *
          (speed (config g) - real (foodEaten (state g)) * speedIncrease (config g))) \<and>
   maxSpeed (config g) \<le> getCurrentSpeed g \<and>
   (0 \<le> speedIncrease (config g) \<longrightarrow> n \<le> m \<longrightarrow>
      getCurrentSpeed (with_foodEaten m g) \<le> getCurrentSpeed (with_foodEaten n g))"
proof -
  have mono: "getCurrentSpeed (with_foodEaten m g) \<le> getCurrentSpeed (with_foodEaten n g)"
    if inc: "0 \<le> speedIncrease (config g)" and le: "n \<le> m"
  proof -
    have "real n * speedIncrease (config g) \<le> real m * speedIncrease (config g)"
      using inc le by (intro mult_right_mono) simp_all
    then have "speed (config g) - real m * speedIncrease (config g)
                 \<le> speed (config g) - real n * speedIncrease (config g)"
      by simp
    then show ?thesis
      by (auto simp: getCurrentSpeed_def with_foodEaten_def Let_def max_def)
  qed
  have "getCurrentSpeed g =
     max (maxSpeed (config g))
         ((if speedBoostActive g then 0.7 else 1) *
          (speed (config g) - real (foodEaten (state g)) * speedIncrease (config g)))"
    by (simp add: getCurrentSpeed_def speedBoostActive_def Let_def mult.commute)
  moreover have "maxSpeed (config g) \<le> getCurrentSpeed g"
    by (simp add: getCurrentSpeed_def Let_def)
  ultimately show ?thesis using mono by blast
qed

theorem interval_formula_witness:
  "(0::real) \<le> speedIncrease (config (new_game default_config)) \<and> (0::nat) \<le> 1 \<and>
   getCurrentSpeed (with_foodEaten 1 (new_game default_config)) = 148 \<and>
   getCurrentSpeed (with_foodEaten 0 (new_game default_config)) = 150 \<and>
   getCurrentSpeed (with_foodEaten 1 (new_game default_config))
     \<le> getCurrentSpeed (with_foodEaten 0 (new_game default_config))"
  using interval_formula [of "new_game default_config" 0 1]
  by (simp add: getCurrentSpeed_def with_foodEaten_def new_game_def default_config_def
      initial_state_def Let_def)

text \<open>
  Without the condition on \<open>speedIncrease\<close> the interval can grow with the food count:
  the constructor accepts \<open>speedIncrease = -2\<close>, and then one food raises the interval
  from 150 to 152.
\<close>

theorem interval_monotone_counterexample:
  "\<not> getCurrentSpeed (with_foodEaten 1 (new_game (merge_config default_config (no_opts\<lparr>speedIncrease_opt := Some (- 2)\<rparr>))))
       \<le> getCurrentSpeed (with_foodEaten 0 (new_game (merge_config default_config (no_opts\<lparr>speedIncrease_opt := Some (- 2)\<rparr>))))"
  by (simp add: getCurrentSpeed_def with_foodEaten_def new_game_def default_config_def
      merge_config_def no_opts_def initial_state_def Let_def)

subsection \<open>Collisions\<close>

text \<open>
  Claim C1. Let a tick of a running engine move the snake, giving the head \<open>h\<close> in front
  of the cells \<open>rest\<close>. If the collision rule holds for them (a wall hit without wallPass,
  a hit of a body cell of index 1 or later without invincible, or an obstacle hit in
  obstacle mode without invincible), the tick returns the moved engine after \<open>endGame\<close>:
  the game is over, and the run state is otherwise the one before the tick, the food and
  the random source untouched. If the rule does not hold, the tick, when it returns,
  leaves the engine running with \<open>gameOver\<close> as it was.
\<close>

theorem tick_ends_game_iff_collision:
  assumes "running (state g)"
    and "moveSnake (commitDirection g) = Inr g2"
    and "body (snake g2) = h # rest"
  shows "(collisionRule g h rest \<longrightarrow>
            gameLoop now g s = Some (Inr (endGame g2, s)) \<and>
            state (endGame g2) = (state g)\<lparr>running := False, gameOver := True\<rparr> \<and>
            food (endGame g2) = food g) \<and>
         (\<not> collisionRule g h rest \<longrightarrow>
            (\<forall>r. gameLoop now g s = Some r \<longrightarrow>
               (\<exists>g' s'. r = Inr (g', s') \<and> running (state g') \<and>
                         gameOver (state g') = gameOver (state g))))"
proof (intro conjI impI allI)
  assume c: "collisionRule g h rest"
  show "gameLoop now g s = Some (Inr (endGame g2, s))"
    by (rule gameLoop_collision [OF assms(2,3) c])
  have "running (state g2)"
    using assms(1) moveSnake_frame(2) [OF assms(2)] by (simp add: commitDirection_frame)
  from endGame_running [OF this]
  show "state (endGame g2) = (state g)\<lparr>running := False, gameOver := True\<rparr>"
    "food (endGame g2) = food g"
    using moveSnake_frame(2,3) [OF assms(2)] by (simp_all add: commitDirection_frame)
next
  fix r
  assume n: "\<not> collisionRule g h rest" and r: "gameLoop now g s = Some r"
  from r gameLoop_no_collision [OF assms(2,3) n, of now s]
  obtain r' where cf: "checkFood now g2 s = Some r'"
    by (cases "checkFood now g2 s") simp_all
  from checkFood_Some [OF assms(3) cf] obtain g3 s3 where
    g3: "r' = Inr (g3, s3)" "running (state g3) = running (state g2)"
      "gameOver (state g3) = gameOver (state g2)"
    by blast
  have "r = Inr (checkPowerUps now g3, s3)"
    using r gameLoop_no_collision [OF assms(2,3) n, of now s] cf g3(1) by simp
  moreover have "state g2 = state g"
    using moveSnake_frame(2) [OF assms(2)] by (simp add: commitDirection_frame)
  ultimately show "\<exists>g' s'. r = Inr (g', s') \<and> running (state g') \<and>
                         gameOver (state g') = gameOver (state g)"
    using g3(2,3) assms(1) by (simp add: checkPowerUps_frame)
qed

theorem tick_ends_game_iff_collision_witness:
  "(let g = sample ''classic'' [\<lparr>xc = 29, yc = 10\<rparr>, \<lparr>xc = 28, yc = 10\<rparr>, \<lparr>xc = 27, yc = 10\<rparr>]
              \<lparr>xc = 6, yc = 4, type = Normal\<rparr> [];
        g2 = g\<lparr>snake := (snake g)\<lparr>body := [\<lparr>xc = 30, yc = 10\<rparr>, \<lparr>xc = 29, yc = 10\<rparr>,
                                               \<lparr>xc = 28, yc = 10\<rparr>]\<rparr>\<rparr>
    in running (state g) \<and> moveSnake (commitDirection g) = Inr g2 \<and>
       collisionRule g \<lparr>xc = 30, yc = 10\<rparr> [\<lparr>xc = 29, yc = 10\<rparr>, \<lparr>xc = 28, yc = 10\<rparr>] \<and>
       gameLoop 0 g (sconst 0) = Some (Inr (endGame g2, sconst 0)) \<and>
       gameOver (state (endGame g2)) \<and> \<not> running (state (endGame g2))) \<and>
   (let g = sample ''classic'' [\<lparr>xc = 15, yc = 10\<rparr>, \<lparr>xc = 14, yc = 10\<rparr>, \<lparr>xc = 13, yc = 10\<rparr>]
              \<lparr>xc = 6, yc = 4, type = Normal\<rparr> [];
        g2 = g\<lparr>snake := (snake g)\<lparr>body := [\<lparr>xc = 16, yc = 10\<rparr>, \<lparr>xc = 15, yc = 10\<rparr>,
                                               \<lparr>xc = 14, yc = 10\<rparr>]\<rparr>\<rparr>
    in running (state g) \<and> moveSnake (commitDirection g) = Inr g2 \<and>
       \<not> collisionRule g \<lparr>xc = 16, yc = 10\<rparr> [\<lparr>xc = 15, yc = 10\<rparr>, \<lparr>xc = 14, yc = 10\<rparr>] \<and>
       gameLoop 0 g (sconst 0) = Some (Inr (g2, sconst 0)) \<and>
       running (state g2) \<and> \<not> gameOver (state g2))"
proof -
  let ?ga = "sample ''classic'' [\<lparr>xc = 29, yc = 10\<rparr>, \<lparr>xc = 28, yc = 10\<rparr>, \<lparr>xc = 27, yc = 10\<rparr>]
              \<lparr>xc = 6, yc = 4, type = Normal\<rparr> []"
  let ?ga2 = "?ga\<lparr>snake := (snake ?ga)\<lparr>body := [\<lparr>xc = 30, yc = 10\<rparr>, \<lparr>xc = 29, yc = 10\<rparr>,
                                               \<lparr>xc = 28, yc = 10\<rparr>]\<rparr>\<rparr>"
  let ?gb = "sample ''classic'' [\<lparr>xc = 15, yc = 10\<rparr>, \<lparr>xc = 14, yc = 10\<rparr>, \<lparr>xc = 13, yc = 10\<rparr>]
              \<lparr>xc = 6, yc = 4, type = Normal\<rparr> []"
  let ?gb2 = "?gb\<lparr>snake := (snake ?gb)\<lparr>body := [\<lparr>xc = 16, yc = 10\<rparr>, \<lparr>xc = 15, yc = 10\<rparr>,
                                               \<lparr>xc = 14, yc = 10\<rparr>]\<rparr>\<rparr>"
  have a1: "running (state ?ga)" by (simp add: sample_defs)
  have a2: "moveSnake (commitDirection ?ga) = Inr ?ga2" by (simp add: sample_defs)
  have a3: "body (snake ?ga2) = \<lparr>xc = 30, yc = 10\<rparr> # [\<lparr>xc = 29, yc = 10\<rparr>, \<lparr>xc = 28, yc = 10\<rparr>]"
    by simp
  have a4: "collisionRule ?ga \<lparr>xc = 30, yc = 10\<rparr> [\<lparr>xc = 29, yc = 10\<rparr>, \<lparr>xc = 28, yc = 10\<rparr>]"
    by (simp add: collisionRule_def wallPassActive_def inGrid_def sample_defs)
  have b1: "running (state ?gb)" by (simp add: sample_defs)
  have b2: "moveSnake (commitDirection ?gb) = Inr ?gb2" by (simp add: sample_defs)
  have b3: "body (snake ?gb2) = \<lparr>xc = 16, yc = 10\<rparr> # [\<lparr>xc = 15, yc = 10\<rparr>, \<lparr>xc = 14, yc = 10\<rparr>]"
    by simp
  have b4: "\<not> collisionRule ?gb \<lparr>xc = 16, yc = 10\<rparr> [\<lparr>xc = 15, yc = 10\<rparr>, \<lparr>xc = 14, yc = 10\<rparr>]"
    by (simp add: collisionRule_def wallPassActive_def invincibleActive_def inGrid_def sample_defs)
  have b5: "gameLoop 0 ?gb (sconst 0) = Some (Inr (?gb2, sconst 0))"
    by (subst gameLoop_no_collision [OF b2 b3 b4])
       (simp add: checkFood_def checkPowerUps_def sample_defs)
  have b6: "running (state ?gb2)" "\<not> gameOver (state ?gb2)" by (simp_all add: sample_defs)
  from tick_ends_game_iff_collision [OF a1 a2 a3, of 0 "sconst 0"] a4
  have a5: "gameLoop 0 ?ga (sconst 0) = Some (Inr (endGame ?ga2, sconst 0))"
    "state (endGame ?ga2) = (state ?ga)\<lparr>running := False, gameOver := True\<rparr>"
    by simp_all
  from a5(2) have a6: "gameOver (state (endGame ?ga2))" "\<not> running (state (endGame ?ga2))"
    by simp_all
  from tick_ends_game_iff_collision [OF b1 b2 b3, of 0 "sconst 0"] b4 b5
  have "running (state ?gb2)" by simp
  with a1 a2 a4 a5 a6 b1 b2 b4 b5 b6 show ?thesis
    unfolding Let_def by blast
qed

text \<open>
  Claim C8. In obstacle mode without invincible, a tick of a running engine that moves the
  head onto an obstacle cell returns the moved engine after \<open>endGame\<close>: the game is over
  and \<open>foodEaten\<close> and \<open>score\<close> are those before the tick, whether or not the food lies on
  that cell.
\<close>

theorem obstacle_collision_ends_tick:
  assumes "running (state g)"
    and "mode (config g) = ''obstacle''"
    and "\<not> invincibleActive g"
    and "moveSnake (commitDirection g) = Inr g2"
    and "body (snake g2) = h # rest"
    and "h \<in> set (obstacles g)"
  shows "gameLoop now g s = Some (Inr (endGame g2, s)) \<and>
         gameOver (state (endGame g2)) \<and> \<not> running (state (endGame g2)) \<and>
         foodEaten (state (endGame g2)) = foodEaten (state g) \<and>
         score (state (endGame g2)) = score (state g)"
proof -
  have c: "collisionRule g h rest"
    using assms(2,3,6) by (simp add: collisionRule_def)
  have "running (state g2)" and st: "state g2 = state g"
    using assms(1) moveSnake_frame(2) [OF assms(4)] by (simp_all add: commitDirection_frame)
  from endGame_running(1) [OF this(1)] st
  have "state (endGame g2) = (state g)\<lparr>running := False, gameOver := True\<rparr>"
    by simp
  then show ?thesis
    using gameLoop_collision [OF assms(4,5) c, of now s] by simp
qed

theorem obstacle_collision_ends_tick_witness:
  "(let g = sample ''obstacle'' [\<lparr>xc = 15, yc = 10\<rparr>, \<lparr>xc = 14, yc = 10\<rparr>, \<lparr>xc = 13, yc = 10\<rparr>]
              \<lparr>xc = 6, yc = 4, type = Normal\<rparr> [\<lparr>xc = 16, yc = 10\<rparr>, \<lparr>xc = 3, yc = 3\<rparr>];
        g2 = g\<lparr>snake := (snake g)\<lparr>body := [\<lparr>xc = 16, yc = 10\<rparr>, \<lparr>xc = 15, yc = 10\<rparr>,
                                               \<lparr>xc = 14, yc = 10\<rparr>]\<rparr>\<rparr>
    in running (state g) \<and> mode (config g) = ''obstacle'' \<and> \<not> invincibleActive g \<and>
       moveSnake (commitDirection g) = Inr g2 \<and>
       \<lparr>xc = 16, yc = 10\<rparr> \<in> set (obstacles g) \<and>
       gameLoop 0 g (sconst 0) = Some (Inr (endGame g2, sconst 0)) \<and>
       gameOver (state (endGame g2)) \<and> \<not> running (state (endGame g2)) \<and>
       foodEaten (state (endGame g2)) = 0 \<and> score (state (endGame g2)) = 0)"
proof -
  let ?g = "sample ''obstacle'' [\<lparr>xc = 15, yc = 10\<rparr>, \<lparr>xc = 14, yc = 10\<rparr>, \<lparr>xc = 13, yc = 10\<rparr>]
              \<lparr>xc = 6, yc = 4, type = Normal\<rparr> [\<lparr>xc = 16, yc = 10\<rparr>, \<lparr>xc = 3, yc = 3\<rparr>]"
  let ?g2 = "?g\<lparr>snake := (snake ?g)\<lparr>body := [\<lparr>xc = 16, yc = 10\<rparr>, \<lparr>xc = 15, yc = 10\<rparr>,
                                               \<lparr>xc = 14, yc = 10\<rparr>]\<rparr>\<rparr>"
  have h1: "running (state ?g)" by (simp add: sample_defs)
  have h2: "mode (config ?g) = ''obstacle''" by (simp add: sample_defs)
  have h3: "\<not> invincibleActive ?g" by (simp add: invincibleActive_def sample_defs)
  have h4: "moveSnake (commitDirection ?g) = Inr ?g2" by (simp add: sample_defs)
  have h5: "body (snake ?g2) = \<lparr>xc = 16, yc = 10\<rparr> # [\<lparr>xc = 15, yc = 10\<rparr>, \<lparr>xc = 14, yc = 10\<rparr>]"
    by simp
  have h6: "\<lparr>xc = 16, yc = 10\<rparr> \<in> set (obstacles ?g)" by (simp add: sample_defs)
  have z: "foodEaten (state ?g) = 0" "score (state ?g) = 0" by (simp_all add: sample_defs)
  from obstacle_collision_ends_tick [OF h1 h2 h3 h4 h5 h6, of 0 "sconst 0"] z h1 h2 h3 h4 h6
  show ?thesis
    unfolding Let_def by simp
qed

text \<open>
  Claim C10, as amended. When wallPass is inactive and a tick of a running engine moves the
  head outside the grid, the tick ends the game with that cell still at the head of the
  body, and the snapshot of \<open>getRenderData\<close> reports it. Conversely, a tick of a running
  engine whose body cells all lie in the grid, if it returns without the game being over,
  leaves every body cell in the grid.
\<close>

theorem wall_collision_head:
  assumes "running (state g)"
    and "moveSnake (commitDirection g) = Inr g2"
    and "body (snake g2) = h # rest"
  shows "(\<not> wallPassActive g \<and> \<not> inGrid (config g) h \<longrightarrow>
            gameLoop now g s = Some (Inr (endGame g2, s)) \<and>
            gameOver (state (endGame g2)) \<and>
            rd_snake (getRenderData (endGame g2)) = h # rest \<and>
            rd_width (getRenderData (endGame g2)) = width (config g) \<and>
            rd_height (getRenderData (endGame g2)) = height (config g)) \<and>
         ((\<forall>c \<in> set (body (snake g)). inGrid (config g) c) \<longrightarrow>
            (\<forall>g' s'. gameLoop now g s = Some (Inr (g', s')) \<longrightarrow> \<not> gameOver (state g') \<longrightarrow>
               (\<forall>c \<in> set (body (snake g')). inGrid (config g') c)))"
proof (intro conjI impI allI)
  note f = moveSnake_frame [OF assms(2)]
  have run2: "running (state g2)"
    using assms(1) f(2) by (simp add: commitDirection_frame)
  note e = endGame_running [OF run2]
  {
    assume w: "\<not> wallPassActive g \<and> \<not> inGrid (config g) h"
    then have c: "collisionRule g h rest"
      by (simp add: collisionRule_def)
    show "gameLoop now g s = Some (Inr (endGame g2, s))"
      by (rule gameLoop_collision [OF assms(2,3) c])
    show "gameOver (state (endGame g2))"
      by (simp add: e(1))
    show "rd_snake (getRenderData (endGame g2)) = h # rest"
      "rd_width (getRenderData (endGame g2)) = width (config g)"
      "rd_height (getRenderData (endGame g2)) = height (config g)"
      using assms(3) f(1) by (simp_all add: getRenderData_def e commitDirection_frame)
  }
  fix g' s'
  assume inv: "\<forall>c \<in> set (body (snake g)). inGrid (config g) c"
    and r: "gameLoop now g s = Some (Inr (g', s'))"
    and no: "\<not> gameOver (state g')"
  have nc: "\<not> collisionRule g h rest"
  proof
    assume c: "collisionRule g h rest"
    from r gameLoop_collision [OF assms(2,3) c, of now s] have "g' = endGame g2" by simp
    with no e(1) show False by simp
  qed
  from moveSnake_body [OF assms(2,3)] obtain h0 rest0 where
    b0: "body (snake g) = h0 # rest0" and h: "h = newHead (commitDirection g) h0"
    and sub: "set rest \<subseteq> set (body (snake g))"
    by (auto simp: commitDirection_frame)
  have "inGrid (config g) h"
  proof (cases "wallPassActive g")
    case True
    then have "wallPassActive (commitDirection g)"
      by (simp add: wallPassActive_def commitDirection_frame)
    moreover have "inGrid (config (commitDirection g)) h0"
      using inv b0 by (simp add: commitDirection_frame)
    ultimately have "inGrid (config (commitDirection g)) (newHead (commitDirection g) h0)"
      by (rule newHead_wrap_inGrid)
    then show ?thesis by (simp add: h commitDirection_frame)
  next
    case False
    with nc show ?thesis by (auto simp: collisionRule_def)
  qed
  with inv sub have all2: "\<forall>c \<in> set (body (snake g2)). inGrid (config g) c"
    by (auto simp: assms(3))
  from r gameLoop_no_collision [OF assms(2,3) nc, of now s]
  obtain r' where cf: "checkFood now g2 s = Some r'"
    by (cases "checkFood now g2 s") simp_all
  from checkFood_Some [OF assms(3) cf] obtain g3 s3 where
    g3: "r' = Inr (g3, s3)" "body (snake g3) = body (snake g2)" "config g3 = config g2"
    by blast
  from r gameLoop_no_collision [OF assms(2,3) nc, of now s] cf g3(1)
  have "g' = checkPowerUps now g3" by simp
  then have "body (snake g') = body (snake g2)" "config g' = config g"
    using g3(2,3) f(1) by (simp_all add: checkPowerUps_frame commitDirection_frame)
  with all2 show "\<forall>c \<in> set (body (snake g')). inGrid (config g') c"
    by simp
qed

theorem wall_collision_head_witness:
  "running (state (sample ''classic'' [\<lparr>xc = 29, yc = 10\<rparr>, \<lparr>xc = 28, yc = 10\<rparr>, \<lparr>xc = 27, yc = 10\<rparr>]
        \<lparr>xc = 6, yc = 4, type = Normal\<rparr> [])) \<and>
   \<not> wallPassActive (sample ''classic'' [\<lparr>xc = 29, yc = 10\<rparr>, \<lparr>xc = 28, yc = 10\<rparr>, \<lparr>xc = 27, yc = 10\<rparr>]
        \<lparr>xc = 6, yc = 4, type = Normal\<rparr> []) \<and>
   \<not> inGrid (config (sample ''classic'' [\<lparr>xc = 29, yc = 10\<rparr>, \<lparr>xc = 28, yc = 10\<rparr>, \<lparr>xc = 27, yc = 10\<rparr>]
        \<lparr>xc = 6, yc = 4, type = Normal\<rparr> [])) \<lparr>xc = 30, yc = 10\<rparr> \<and>
   gameLoop 0 (sample ''classic'' [\<lparr>xc = 29, yc = 10\<rparr>, \<lparr>xc = 28, yc = 10\<rparr>, \<lparr>xc = 27, yc = 10\<rparr>]
        \<lparr>xc = 6, yc = 4, type = Normal\<rparr> []) (sconst 0) =
     Some (Inr (endGame (sample ''classic'' [\<lparr>xc = 30, yc = 10\<rparr>, \<lparr>xc = 29, yc = 10\<rparr>, \<lparr>xc = 28, yc = 10\<rparr>]
        \<lparr>xc = 6, yc = 4, type = Normal\<rparr> []), sconst 0)) \<and>
   gameOver (state (endGame (sample ''classic'' [\<lparr>xc = 30, yc = 10\<rparr>, \<lparr>xc = 29, yc = 10\<rparr>, \<lparr>xc = 28, yc = 10\<rparr>]
        \<lparr>xc = 6, yc = 4, type = Normal\<rparr> []))) \<and>
   rd_snake (getRenderData (endGame (sample ''classic'' [\<lparr>xc = 30, yc = 10\<rparr>, \<lparr>xc = 29, yc = 10\<rparr>, \<lparr>xc = 28, yc = 10\<rparr>]
        \<lparr>xc = 6, yc = 4, type = Normal\<rparr> []))) = [\<lparr>xc = 30, yc = 10\<rparr>, \<lparr>xc = 29, yc = 10\<rparr>, \<lparr>xc = 28, yc = 10\<rparr>] \<and>
   list_all (inGrid (config (sample ''classic'' [\<lparr>xc = 15, yc = 10\<rparr>, \<lparr>xc = 14, yc = 10\<rparr>, \<lparr>xc = 13, yc = 10\<rparr>]
        \<lparr>xc = 6, yc = 4, type = Normal\<rparr> [])))
     (body (snake (sample ''classic'' [\<lparr>xc = 15, yc = 10\<rparr>, \<lparr>xc = 14, yc = 10\<rparr>, \<lparr>xc = 13, yc = 10\<rparr>]
        \<lparr>xc = 6, yc = 4, type = Normal\<rparr> []))) \<and>
   gameLoop 0 (sample ''classic'' [\<lparr>xc = 15, yc = 10\<rparr>, \<lparr>xc = 14, yc = 10\<rparr>, \<lparr>xc = 13, yc = 10\<rparr>]
        \<lparr>xc = 6, yc = 4, type = Normal\<rparr> []) (sconst 0) =
     Some (Inr (sample ''classic'' [\<lparr>xc = 16, yc = 10\<rparr>, \<lparr>xc = 15, yc = 10\<rparr>, \<lparr>xc = 14, yc = 10\<rparr>]
        \<lparr>xc = 6, yc = 4, type = Normal\<rparr> [], sconst 0)) \<and>
   \<not> gameOver (state (sample ''classic'' [\<lparr>xc = 16, yc = 10\<rparr>, \<lparr>xc = 15, yc = 10\<rparr>, \<lparr>xc = 14, yc = 10\<rparr>]
        \<lparr>xc = 6, yc = 4, type = Normal\<rparr> [])) \<and>
   list_all (inGrid (config (sample ''classic'' [\<lparr>xc = 16, yc = 10\<rparr>, \<lparr>xc = 15, yc = 10\<rparr>, \<lparr>xc = 14, yc = 10\<rparr>]
        \<lparr>xc = 6, yc = 4, type = Normal\<rparr> [])))
     (body (snake (sample ''classic'' [\<lparr>xc = 16, yc = 10\<rparr>, \<lparr>xc = 15, yc = 10\<rparr>, \<lparr>xc = 14, yc = 10\<rparr>]
        \<lparr>xc = 6, yc = 4, type = Normal\<rparr> [])))"
proof -
  let ?e = "sample ''classic'' [\<lparr>xc = 29, yc = 10\<rparr>, \<lparr>xc = 28, yc = 10\<rparr>, \<lparr>xc = 27, yc = 10\<rparr>]
        \<lparr>xc = 6, yc = 4, type = Normal\<rparr> []"
  let ?o = "sample ''classic'' [\<lparr>xc = 30, yc = 10\<rparr>, \<lparr>xc = 29, yc = 10\<rparr>, \<lparr>xc = 28, yc = 10\<rparr>]
        \<lparr>xc = 6, yc = 4, type = Normal\<rparr> []"
  let ?m = "sample ''classic'' [\<lparr>xc = 15, yc = 10\<rparr>, \<lparr>xc = 14, yc = 10\<rparr>, \<lparr>xc = 13, yc = 10\<rparr>]
        \<lparr>xc = 6, yc = 4, type = Normal\<rparr> []"
  let ?m2 = "sample ''classic'' [\<lparr>xc = 16, yc = 10\<rparr>, \<lparr>xc = 15, yc = 10\<rparr>, \<lparr>xc = 14, yc = 10\<rparr>]
        \<lparr>xc = 6, yc = 4, type = Normal\<rparr> []"
  have r: "running (state ?e)" "running (state ?m)" by (simp_all add: sample_defs)
  have bo: "body (snake ?o) = \<lparr>xc = 30, yc = 10\<rparr> # [\<lparr>xc = 29, yc = 10\<rparr>, \<lparr>xc = 28, yc = 10\<rparr>]"
    and bm: "body (snake ?m2) = \<lparr>xc = 16, yc = 10\<rparr> # [\<lparr>xc = 15, yc = 10\<rparr>, \<lparr>xc = 14, yc = 10\<rparr>]"
    by (simp_all add: sample_defs)
  have w: "\<not> wallPassActive ?e" "\<not> inGrid (config ?e) \<lparr>xc = 30, yc = 10\<rparr>"
    by (simp_all add: wallPassActive_def inGrid_def sample_defs)
  have i: "\<forall>c \<in> set (body (snake ?m)). inGrid (config ?m) c"
    by (simp add: inGrid_def sample_defs)
  have n: "\<not> gameOver (state ?m2)" by (simp add: sample_defs)
  from wall_collision_head [OF r(1) edge_move bo, of 0 "sconst 0"] w
  have a: "gameLoop 0 ?e (sconst 0) = Some (Inr (endGame ?o, sconst 0))"
    "gameOver (state (endGame ?o))"
    "rd_snake (getRenderData (endGame ?o)) = \<lparr>xc = 30, yc = 10\<rparr> # [\<lparr>xc = 29, yc = 10\<rparr>, \<lparr>xc = 28, yc = 10\<rparr>]"
    by simp_all
  from wall_collision_head [OF r(2) plain_move bm, of 0 "sconst 0"] i plain_tick [of "sconst 0"] n
  have b: "\<forall>c \<in> set (body (snake ?m2)). inGrid (config ?m2) c"
    by blast
  from r w i n a b plain_tick [of "sconst 0"] show ?thesis by (simp add: list_all_iff)
qed

text \<open>
  The converse as stated (not over implies every cell in the grid) fails between ticks:
  \<open>start\<close> after a wall collision clears \<open>gameOver\<close> and leaves the snake where it is, its
  head outside the grid.
\<close>

theorem not_over_out_of_grid_counterexample:
  "gameLoop 0 (sample ''classic'' [\<lparr>xc = 29, yc = 10\<rparr>, \<lparr>xc = 28, yc = 10\<rparr>, \<lparr>xc = 27, yc = 10\<rparr>]
        \<lparr>xc = 6, yc = 4, type = Normal\<rparr> []) (sconst 0) =
     Some (Inr (endGame (sample ''classic'' [\<lparr>xc = 30, yc = 10\<rparr>, \<lparr>xc = 29, yc = 10\<rparr>, \<lparr>xc = 28, yc = 10\<rparr>]
        \<lparr>xc = 6, yc = 4, type = Normal\<rparr> []), sconst 0)) \<and>
   gameOver (state (endGame (sample ''classic'' [\<lparr>xc = 30, yc = 10\<rparr>, \<lparr>xc = 29, yc = 10\<rparr>, \<lparr>xc = 28, yc = 10\<rparr>]
        \<lparr>xc = 6, yc = 4, type = Normal\<rparr> []))) \<and>
   \<not> gameOver (state (start (endGame (sample ''classic'' [\<lparr>xc = 30, yc = 10\<rparr>, \<lparr>xc = 29, yc = 10\<rparr>, \<lparr>xc = 28, yc = 10\<rparr>]
        \<lparr>xc = 6, yc = 4, type = Normal\<rparr> [])))) \<and>
   body (snake (start (endGame (sample ''classic'' [\<lparr>xc = 30, yc = 10\<rparr>, \<lparr>xc = 29, yc = 10\<rparr>, \<lparr>xc = 28, yc = 10\<rparr>]
        \<lparr>xc = 6, yc = 4, type = Normal\<rparr> [])))) = [\<lparr>xc = 30, yc = 10\<rparr>, \<lparr>xc = 29, yc = 10\<rparr>, \<lparr>xc = 28, yc = 10\<rparr>] \<and>
   \<not> inGrid (config (start (endGame (sample ''classic'' [\<lparr>xc = 30, yc = 10\<rparr>, \<lparr>xc = 29, yc = 10\<rparr>, \<lparr>xc = 28, yc = 10\<rparr>]
        \<lparr>xc = 6, yc = 4, type = Normal\<rparr> [])))) \<lparr>xc = 30, yc = 10\<rparr>"
  by (simp add: eval_defs sample_def inGrid_def)

subsection \<open>Growth\<close>

text \<open>
  Claim C2, as amended. The body length after a tick that returns is the length before,
  plus one exactly when the growing flag was set before the tick, whether or not the head
  lands on the food in that tick. The flag is set after the tick exactly when the moved
  head landed on the food and the tick found no collision: the cell gained by eating is
  added by the tick after the one that ate.
\<close>

theorem tick_length:
  assumes "gameLoop now g s = Some (Inr (g', s'))"
  shows "length (body (snake g')) =
           length (body (snake g)) + (if growing (snake g) then 1 else 0) \<and>
         (growing (snake g') \<longleftrightarrow>
            (\<exists>h rest. body (snake g') = h # rest \<and> \<not> collisionRule g h rest \<and>
                       xc h = xc (food g) \<and> yc h = yc (food g)))"
proof -
  from assms obtain g2 where m: "moveSnake (commitDirection g) = Inr g2"
    by (cases "moveSnake (commitDirection g)") (simp_all add: gameLoop_unfold)
  note f = moveSnake_frame [OF m]
  from assms gameLoop_empty [OF m, of now s] obtain h rest where b: "body (snake g2) = h # rest"
    by (cases "body (snake g2)") simp_all
  have len: "length (body (snake g2)) =
               length (body (snake g)) + (if growing (snake g) then 1 else 0)"
    using f(11) by (simp add: commitDirection_frame)
  show ?thesis
  proof (cases "collisionRule g h rest")
    case True
    from assms gameLoop_collision [OF m b True, of now s] have g': "g' = endGame g2"
      by simp
    have "snake (endGame g2) = snake g2"
      by (simp add: endGame_def clearTimers_def)
    with g' b len f(10) True show ?thesis by auto
  next
    case False
    from assms gameLoop_no_collision [OF m b False, of now s]
    obtain r where cf: "checkFood now g2 s = Some r"
      by (cases "checkFood now g2 s") simp_all
    from checkFood_Some [OF b cf] obtain g3 s3 where
      g3: "r = Inr (g3, s3)" "body (snake g3) = body (snake g2)"
        "growing (snake g3) = (growing (snake g2) \<or> (xc h = xc (food g2) \<and> yc h = yc (food g2)))"
      by blast
    from assms gameLoop_no_collision [OF m b False, of now s] cf g3(1)
    have g': "g' = checkPowerUps now g3" by simp
    have "food g2 = food g" using f(3) by (simp add: commitDirection_frame)
    with g' g3(2,3) b len f(10) False show ?thesis
      by (auto simp: checkPowerUps_frame)
  qed
qed

theorem tick_length_witness:
  "gameLoop 0 (sample ''classic'' [\<lparr>xc = 15, yc = 10\<rparr>, \<lparr>xc = 14, yc = 10\<rparr>, \<lparr>xc = 13, yc = 10\<rparr>]
        \<lparr>xc = 16, yc = 10, type = Normal\<rparr> []) (1/2 ## 1/5 ## 1/5 ## sconst 0) =
     Some (Inr ((sample ''classic'' [\<lparr>xc = 16, yc = 10\<rparr>, \<lparr>xc = 15, yc = 10\<rparr>, \<lparr>xc = 14, yc = 10\<rparr>]
        \<lparr>xc = 6, yc = 4, type = Normal\<rparr> [])
       \<lparr>snake := \<lparr>body = [\<lparr>xc = 16, yc = 10\<rparr>, \<lparr>xc = 15, yc = 10\<rparr>, \<lparr>xc = 14, yc = 10\<rparr>],
                  direction = ''right'', nextDirection = ''right'', growing = True\<rparr>,
        state := initial_state\<lparr>running := True, score := 1, foodEaten := 1\<rparr>,
        gameLoopInterval := Some 148\<rparr>, sconst 0)) \<and>
   length (body (snake ((sample ''classic'' [\<lparr>xc = 16, yc = 10\<rparr>, \<lparr>xc = 15, yc = 10\<rparr>, \<lparr>xc = 14, yc = 10\<rparr>]
        \<lparr>xc = 6, yc = 4, type = Normal\<rparr> [])
       \<lparr>snake := \<lparr>body = [\<lparr>xc = 16, yc = 10\<rparr>, \<lparr>xc = 15, yc = 10\<rparr>, \<lparr>xc = 14, yc = 10\<rparr>],
                  direction = ''right'', nextDirection = ''right'', growing = True\<rparr>,
        state := initial_state\<lparr>running := True, score := 1, foodEaten := 1\<rparr>,
        gameLoopInterval := Some 148\<rparr>))) = length (body (snake (sample ''classic'' [\<lparr>xc = 15, yc = 10\<rparr>, \<lparr>xc = 14, yc = 10\<rparr>, \<lparr>xc = 13, yc = 10\<rparr>]
        \<lparr>xc = 16, yc = 10, type = Normal\<rparr> []))) \<and>
   growing (snake ((sample ''classic'' [\<lparr>xc = 16, yc = 10\<rparr>, \<lparr>xc = 15, yc = 10\<rparr>, \<lparr>xc = 14, yc = 10\<rparr>]
        \<lparr>xc = 6, yc = 4, type = Normal\<rparr> [])
       \<lparr>snake := \<lparr>body = [\<lparr>xc = 16, yc = 10\<rparr>, \<lparr>xc = 15, yc = 10\<rparr>, \<lparr>xc = 14, yc = 10\<rparr>],
                  direction = ''right'', nextDirection = ''right'', growing = True\<rparr>,
        state := initial_state\<lparr>running := True, score := 1, foodEaten := 1\<rparr>,
        gameLoopInterval := Some 148\<rparr>)) \<and>
   \<not> collisionRule (sample ''classic'' [\<lparr>xc = 15, yc = 10\<rparr>, \<lparr>xc = 14, yc = 10\<rparr>, \<lparr>xc = 13, yc = 10\<rparr>]
        \<lparr>xc = 16, yc = 10, type = Normal\<rparr> []) \<lparr>xc = 16, yc = 10\<rparr> [\<lparr>xc = 15, yc = 10\<rparr>, \<lparr>xc = 14, yc = 10\<rparr>]"
proof -
  note t = food_tick [of "sconst 0"]
  have "\<not> growing (snake (sample ''classic'' [\<lparr>xc = 15, yc = 10\<rparr>, \<lparr>xc = 14, yc = 10\<rparr>, \<lparr>xc = 13, yc = 10\<rparr>]
        \<lparr>xc = 16, yc = 10, type = Normal\<rparr> []))"
    by (simp add: sample_defs)
  moreover have "\<not> collisionRule (sample ''classic'' [\<lparr>xc = 15, yc = 10\<rparr>, \<lparr>xc = 14, yc = 10\<rparr>, \<lparr>xc = 13, yc = 10\<rparr>]
        \<lparr>xc = 16, yc = 10, type = Normal\<rparr> []) \<lparr>xc = 16, yc = 10\<rparr> [\<lparr>xc = 15, yc = 10\<rparr>, \<lparr>xc = 14, yc = 10\<rparr>]"
    by (simp add: collisionRule_def wallPassActive_def invincibleActive_def inGrid_def sample_defs)
  ultimately show ?thesis
    using t tick_length [OF t] by simp
qed

text \<open>
  As stated (the length grows in the tick that eats) the claim fails: the engine
  constructed with the food at (16, 10), right in front of the head, and started, eats in
  its first tick and still has three cells.
\<close>

theorem tick_length_food_counterexample:
  "map_option (start \<circ> fst) (constructor no_opts (1/2 ## 11/20 ## 1/2 ## sconst 0)) =
     Some (sample ''classic'' [\<lparr>xc = 15, yc = 10\<rparr>, \<lparr>xc = 14, yc = 10\<rparr>, \<lparr>xc = 13, yc = 10\<rparr>]
        \<lparr>xc = 16, yc = 10, type = Normal\<rparr> []) \<and>
   gameLoop 0 (sample ''classic'' [\<lparr>xc = 15, yc = 10\<rparr>, \<lparr>xc = 14, yc = 10\<rparr>, \<lparr>xc = 13, yc = 10\<rparr>]
        \<lparr>xc = 16, yc = 10, type = Normal\<rparr> []) (1/2 ## 1/5 ## 1/5 ## sconst 0) =
     Some (Inr ((sample ''classic'' [\<lparr>xc = 16, yc = 10\<rparr>, \<lparr>xc = 15, yc = 10\<rparr>, \<lparr>xc = 14, yc = 10\<rparr>]
        \<lparr>xc = 6, yc = 4, type = Normal\<rparr> [])
       \<lparr>snake := \<lparr>body = [\<lparr>xc = 16, yc = 10\<rparr>, \<lparr>xc = 15, yc = 10\<rparr>, \<lparr>xc = 14, yc = 10\<rparr>],
                  direction = ''right'', nextDirection = ''right'', growing = True\<rparr>,
        state := initial_state\<lparr>running := True, score := 1, foodEaten := 1\<rparr>,
        gameLoopInterval := Some 148\<rparr>, sconst 0)) \<and>
   hd (body (snake ((sample ''classic'' [\<lparr>xc = 16, yc = 10\<rparr>, \<lparr>xc = 15, yc = 10\<rparr>, \<lparr>xc = 14, yc = 10\<rparr>]
        \<lparr>xc = 6, yc = 4, type = Normal\<rparr> [])
       \<lparr>snake := \<lparr>body = [\<lparr>xc = 16, yc = 10\<rparr>, \<lparr>xc = 15, yc = 10\<rparr>, \<lparr>xc = 14, yc = 10\<rparr>],
                  direction = ''right'', nextDirection = ''right'', growing = True\<rparr>,
        state := initial_state\<lparr>running := True, score := 1, foodEaten := 1\<rparr>,
        gameLoopInterval := Some 148\<rparr>))) = \<lparr>xc = xc (food (sample ''classic'' [\<lparr>xc = 15, yc = 10\<rparr>, \<lparr>xc = 14, yc = 10\<rparr>, \<lparr>xc = 13, yc = 10\<rparr>]
        \<lparr>xc = 16, yc = 10, type = Normal\<rparr> [])), yc = yc (food (sample ''classic'' [\<lparr>xc = 15, yc = 10\<rparr>, \<lparr>xc = 14, yc = 10\<rparr>, \<lparr>xc = 13, yc = 10\<rparr>]
        \<lparr>xc = 16, yc = 10, type = Normal\<rparr> []))\<rparr> \<and>
   foodEaten (state ((sample ''classic'' [\<lparr>xc = 16, yc = 10\<rparr>, \<lparr>xc = 15, yc = 10\<rparr>, \<lparr>xc = 14, yc = 10\<rparr>]
        \<lparr>xc = 6, yc = 4, type = Normal\<rparr> [])
       \<lparr>snake := \<lparr>body = [\<lparr>xc = 16, yc = 10\<rparr>, \<lparr>xc = 15, yc = 10\<rparr>, \<lparr>xc = 14, yc = 10\<rparr>],
                  direction = ''right'', nextDirection = ''right'', growing = True\<rparr>,
        state := initial_state\<lparr>running := True, score := 1, foodEaten := 1\<rparr>,
        gameLoopInterval := Some 148\<rparr>)) = foodEaten (state (sample ''classic'' [\<lparr>xc = 15, yc = 10\<rparr>, \<lparr>xc = 14, yc = 10\<rparr>, \<lparr>xc = 13, yc = 10\<rparr>]
        \<lparr>xc = 16, yc = 10, type = Normal\<rparr> [])) + 1 \<and>
   length (body (snake ((sample ''classic'' [\<lparr>xc = 16, yc = 10\<rparr>, \<lparr>xc = 15, yc = 10\<rparr>, \<lparr>xc = 14, yc = 10\<rparr>]
        \<lparr>xc = 6, yc = 4, type = Normal\<rparr> [])
       \<lparr>snake := \<lparr>body = [\<lparr>xc = 16, yc = 10\<rparr>, \<lparr>xc = 15, yc = 10\<rparr>, \<lparr>xc = 14, yc = 10\<rparr>],
                  direction = ''right'', nextDirection = ''right'', growing = True\<rparr>,
        state := initial_state\<lparr>running := True, score := 1, foodEaten := 1\<rparr>,
        gameLoopInterval := Some 148\<rparr>))) \<noteq> length (body (snake (sample ''classic'' [\<lparr>xc = 15, yc = 10\<rparr>, \<lparr>xc = 14, yc = 10\<rparr>, \<lparr>xc = 13, yc = 10\<rparr>]
        \<lparr>xc = 16, yc = 10, type = Normal\<rparr> []))) + 1"
proof -
  have "hd (body (snake ((sample ''classic'' [\<lparr>xc = 16, yc = 10\<rparr>, \<lparr>xc = 15, yc = 10\<rparr>, \<lparr>xc = 14, yc = 10\<rparr>]
        \<lparr>xc = 6, yc = 4, type = Normal\<rparr> [])
       \<lparr>snake := \<lparr>body = [\<lparr>xc = 16, yc = 10\<rparr>, \<lparr>xc = 15, yc = 10\<rparr>, \<lparr>xc = 14, yc = 10\<rparr>],
                  direction = ''right'', nextDirection = ''right'', growing = True\<rparr>,
        state := initial_state\<lparr>running := True, score := 1, foodEaten := 1\<rparr>,
        gameLoopInterval := Some 148\<rparr>))) = \<lparr>xc = xc (food (sample ''classic'' [\<lparr>xc = 15, yc = 10\<rparr>, \<lparr>xc = 14, yc = 10\<rparr>, \<lparr>xc = 13, yc = 10\<rparr>]
        \<lparr>xc = 16, yc = 10, type = Normal\<rparr> [])), yc = yc (food (sample ''classic'' [\<lparr>xc = 15, yc = 10\<rparr>, \<lparr>xc = 14, yc = 10\<rparr>, \<lparr>xc = 13, yc = 10\<rparr>]
        \<lparr>xc = 16, yc = 10, type = Normal\<rparr> []))\<rparr>"
    "foodEaten (state ((sample ''classic'' [\<lparr>xc = 16, yc = 10\<rparr>, \<lparr>xc = 15, yc = 10\<rparr>, \<lparr>xc = 14, yc = 10\<rparr>]
        \<lparr>xc = 6, yc = 4, type = Normal\<rparr> [])
       \<lparr>snake := \<lparr>body = [\<lparr>xc = 16, yc = 10\<rparr>, \<lparr>xc = 15, yc = 10\<rparr>, \<lparr>xc = 14, yc = 10\<rparr>],
                  direction = ''right'', nextDirection = ''right'', growing = True\<rparr>,
        state := initial_state\<lparr>running := True, score := 1, foodEaten := 1\<rparr>,
        gameLoopInterval := Some 148\<rparr>)) = foodEaten (state (sample ''classic'' [\<lparr>xc = 15, yc = 10\<rparr>, \<lparr>xc = 14, yc = 10\<rparr>, \<lparr>xc = 13, yc = 10\<rparr>]
        \<lparr>xc = 16, yc = 10, type = Normal\<rparr> [])) + 1"
    "length (body (snake ((sample ''classic'' [\<lparr>xc = 16, yc = 10\<rparr>, \<lparr>xc = 15, yc = 10\<rparr>, \<lparr>xc = 14, yc = 10\<rparr>]
        \<lparr>xc = 6, yc = 4, type = Normal\<rparr> [])
       \<lparr>snake := \<lparr>body = [\<lparr>xc = 16, yc = 10\<rparr>, \<lparr>xc = 15, yc = 10\<rparr>, \<lparr>xc = 14, yc = 10\<rparr>],
                  direction = ''right'', nextDirection = ''right'', growing = True\<rparr>,
        state := initial_state\<lparr>running := True, score := 1, foodEaten := 1\<rparr>,
        gameLoopInterval := Some 148\<rparr>))) \<noteq> length (body (snake (sample ''classic'' [\<lparr>xc = 15, yc = 10\<rparr>, \<lparr>xc = 14, yc = 10\<rparr>, \<lparr>xc = 13, yc = 10\<rparr>]
        \<lparr>xc = 16, yc = 10, type = Normal\<rparr> []))) + 1"
    by (simp_all add: sample_defs)
  then show ?thesis
    using food_tick [of "sconst 0"] constructed_sample(1) [of "sconst 0"] constructed_sample(2)
    by simp
qed

subsection \<open>Direction changes\<close>

text \<open>
  Claim C7. \<open>changeDirection d\<close> sets \<open>nextDirection\<close> to \<open>d\<close> when \<open>d\<close> is one of the four
  cardinal values and not the reverse of the committed direction, and changes nothing
  otherwise. After a sequence of calls of which at least one is accepted, every tick that
  returns has committed the argument of the last accepted call as the direction; and the
  tick does return, with that direction, whenever the head moved in that direction misses
  the food (only the food search of an eating tick can fail to return).
\<close>

theorem changeDirection_buffer:
  "(accepted g d \<longrightarrow> changeDirection d g = g\<lparr>snake := (snake g)\<lparr>nextDirection := d\<rparr>\<rparr>) \<and>
   (\<not> accepted g d \<longrightarrow> changeDirection d g = g) \<and>
   (filter (accepted g) ds \<noteq> [] \<longrightarrow>
      (\<forall>g' s'. gameLoop now (fold changeDirection ds g) s = Some (Inr (g', s')) \<longrightarrow>
         direction (snake g') = last (filter (accepted g) ds)) \<and>
      (body (snake g) = h # rest \<and>
       \<not> (xc (newHead (g\<lparr>snake := (snake g)\<lparr>direction := last (filter (accepted g) ds)\<rparr>\<rparr>) h)
              = xc (food g) \<and>
          yc (newHead (g\<lparr>snake := (snake g)\<lparr>direction := last (filter (accepted g) ds)\<rparr>\<rparr>) h)
              = yc (food g)) \<longrightarrow>
         (\<exists>g' s'. gameLoop now (fold changeDirection ds g) s = Some (Inr (g', s')) \<and>
                   direction (snake g') = last (filter (accepted g) ds))))"
proof (intro conjI impI allI)
  show "accepted g d \<Longrightarrow> changeDirection d g = g\<lparr>snake := (snake g)\<lparr>nextDirection := d\<rparr>\<rparr>"
    by (rule changeDirection_accepted)
  show "\<not> accepted g d \<Longrightarrow> changeDirection d g = g"
    by (rule changeDirection_rejected)
next
  fix g' s'
  assume ne: "filter (accepted g) ds \<noteq> []"
    and r: "gameLoop now (fold changeDirection ds g) s = Some (Inr (g', s'))"
  from gameLoop_direction [OF r] fold_changeDirection [of ds g] ne
  show "direction (snake g') = last (filter (accepted g) ds)"
    by simp
next
  let ?g1 = "fold changeDirection ds g"
  let ?d = "last (filter (accepted g) ds)"
  assume ne: "filter (accepted g) ds \<noteq> []"
    and h: "body (snake g) = h # rest \<and>
       \<not> (xc (newHead (g\<lparr>snake := (snake g)\<lparr>direction := ?d\<rparr>\<rparr>) h) = xc (food g) \<and>
          yc (newHead (g\<lparr>snake := (snake g)\<lparr>direction := ?d\<rparr>\<rparr>) h) = yc (food g))"
  have nd: "nextDirection (snake ?g1) = ?d"
    using fold_changeDirection [of ds g] ne by simp
  have nh: "newHead (commitDirection ?g1) h = newHead (g\<lparr>snake := (snake g)\<lparr>direction := ?d\<rparr>\<rparr>) h"
    by (rule newHead_cong) (simp_all add: commitDirection_frame nd fold_changeDirection_frame)
  have "\<exists>g' s'. gameLoop now ?g1 s = Some (Inr (g', s'))"
    using h by (intro gameLoop_returns_miss [of ?g1 h rest])
               (simp_all add: fold_changeDirection_frame nh)
  then obtain g' s' where r: "gameLoop now ?g1 s = Some (Inr (g', s'))"
    by blast
  from gameLoop_direction [OF r] nd have "direction (snake g') = ?d"
    by simp
  with r show "\<exists>g' s'. gameLoop now ?g1 s = Some (Inr (g', s')) \<and> direction (snake g') = ?d"
    by blast
qed

theorem changeDirection_buffer_witness:
  "accepted (sample ''classic'' [\<lparr>xc = 15, yc = 10\<rparr>, \<lparr>xc = 14, yc = 10\<rparr>, \<lparr>xc = 13, yc = 10\<rparr>]
          \<lparr>xc = 6, yc = 4, type = Normal\<rparr> []) ''up'' \<and>
   \<not> accepted (sample ''classic'' [\<lparr>xc = 15, yc = 10\<rparr>, \<lparr>xc = 14, yc = 10\<rparr>, \<lparr>xc = 13, yc = 10\<rparr>]
          \<lparr>xc = 6, yc = 4, type = Normal\<rparr> []) ''left'' \<and>
   changeDirection ''left''
       (sample ''classic'' [\<lparr>xc = 15, yc = 10\<rparr>, \<lparr>xc = 14, yc = 10\<rparr>, \<lparr>xc = 13, yc = 10\<rparr>]
          \<lparr>xc = 6, yc = 4, type = Normal\<rparr> []) =
     sample ''classic'' [\<lparr>xc = 15, yc = 10\<rparr>, \<lparr>xc = 14, yc = 10\<rparr>, \<lparr>xc = 13, yc = 10\<rparr>]
          \<lparr>xc = 6, yc = 4, type = Normal\<rparr> [] \<and>
   nextDirection (snake (changeDirection ''up''
       (sample ''classic'' [\<lparr>xc = 15, yc = 10\<rparr>, \<lparr>xc = 14, yc = 10\<rparr>, \<lparr>xc = 13, yc = 10\<rparr>]
          \<lparr>xc = 6, yc = 4, type = Normal\<rparr> []))) = ''up'' \<and>
   filter (accepted (sample ''classic'' [\<lparr>xc = 15, yc = 10\<rparr>, \<lparr>xc = 14, yc = 10\<rparr>, \<lparr>xc = 13, yc = 10\<rparr>]
          \<lparr>xc = 6, yc = 4, type = Normal\<rparr> [])) [''up'', ''left'', ''tilt'', ''down''] = [''up'', ''down''] \<and>
   body (snake (sample ''classic'' [\<lparr>xc = 15, yc = 10\<rparr>, \<lparr>xc = 14, yc = 10\<rparr>, \<lparr>xc = 13, yc = 10\<rparr>]
          \<lparr>xc = 6, yc = 4, type = Normal\<rparr> [])) =
     \<lparr>xc = 15, yc = 10\<rparr> # [\<lparr>xc = 14, yc = 10\<rparr>, \<lparr>xc = 13, yc = 10\<rparr>] \<and>
   newHead ((sample ''classic'' [\<lparr>xc = 15, yc = 10\<rparr>, \<lparr>xc = 14, yc = 10\<rparr>, \<lparr>xc = 13, yc = 10\<rparr>]
          \<lparr>xc = 6, yc = 4, type = Normal\<rparr> [])
        \<lparr>snake := (snake (sample ''classic'' [\<lparr>xc = 15, yc = 10\<rparr>, \<lparr>xc = 14, yc = 10\<rparr>, \<lparr>xc = 13, yc = 10\<rparr>]
          \<lparr>xc = 6, yc = 4, type = Normal\<rparr> []))\<lparr>direction := ''down''\<rparr>\<rparr>) \<lparr>xc = 15, yc = 10\<rparr> =
     \<lparr>xc = 15, yc = 11\<rparr> \<and>
   gameLoop 0 (fold changeDirection [''up'', ''left'', ''tilt'', ''down'']
       (sample ''classic'' [\<lparr>xc = 15, yc = 10\<rparr>, \<lparr>xc = 14, yc = 10\<rparr>, \<lparr>xc = 13, yc = 10\<rparr>]
          \<lparr>xc = 6, yc = 4, type = Normal\<rparr> [])) (sconst 0) =
     Some (Inr ((sample ''classic'' [\<lparr>xc = 15, yc = 11\<rparr>, \<lparr>xc = 15, yc = 10\<rparr>, \<lparr>xc = 14, yc = 10\<rparr>]
          \<lparr>xc = 6, yc = 4, type = Normal\<rparr> [])
        \<lparr>snake := \<lparr>body = [\<lparr>xc = 15, yc = 11\<rparr>, \<lparr>xc = 15, yc = 10\<rparr>, \<lparr>xc = 14, yc = 10\<rparr>],
                   direction = ''down'', nextDirection = ''down'', growing = False\<rparr>\<rparr>, sconst 0)) \<and>
   direction (snake ((sample ''classic'' [\<lparr>xc = 15, yc = 11\<rparr>, \<lparr>xc = 15, yc = 10\<rparr>, \<lparr>xc = 14, yc = 10\<rparr>]
          \<lparr>xc = 6, yc = 4, type = Normal\<rparr> [])
        \<lparr>snake := \<lparr>body = [\<lparr>xc = 15, yc = 11\<rparr>, \<lparr>xc = 15, yc = 10\<rparr>, \<lparr>xc = 14, yc = 10\<rparr>],
                   direction = ''down'', nextDirection = ''down'', growing = False\<rparr>\<rparr>)) = ''down''"
proof -
  let ?g = "sample ''classic'' [\<lparr>xc = 15, yc = 10\<rparr>, \<lparr>xc = 14, yc = 10\<rparr>, \<lparr>xc = 13, yc = 10\<rparr>]
          \<lparr>xc = 6, yc = 4, type = Normal\<rparr> []"
  let ?ds = "[''up'', ''left'', ''tilt'', ''down'']"
  let ?x = "(sample ''classic'' [\<lparr>xc = 15, yc = 11\<rparr>, \<lparr>xc = 15, yc = 10\<rparr>, \<lparr>xc = 14, yc = 10\<rparr>]
          \<lparr>xc = 6, yc = 4, type = Normal\<rparr> [])
        \<lparr>snake := \<lparr>body = [\<lparr>xc = 15, yc = 11\<rparr>, \<lparr>xc = 15, yc = 10\<rparr>, \<lparr>xc = 14, yc = 10\<rparr>],
                   direction = ''down'', nextDirection = ''down'', growing = False\<rparr>\<rparr>"
  have dir: "direction (snake ?g) = ''right''" by (simp add: sample_defs)
  have a: "accepted ?g ''up''" "\<not> accepted ?g ''left''" "\<not> accepted ?g ''tilt''"
    "accepted ?g ''down''"
    by (simp_all add: accepted_def cardinal_def reverse_of_def dir)
  then have f: "filter (accepted ?g) ?ds = [''up'', ''down'']"
    by simp
  have b: "body (snake ?g) = \<lparr>xc = 15, yc = 10\<rparr> # [\<lparr>xc = 14, yc = 10\<rparr>, \<lparr>xc = 13, yc = 10\<rparr>]"
    by (simp add: sample_defs)
  have n: "newHead (?g\<lparr>snake := (snake ?g)\<lparr>direction := ''down''\<rparr>\<rparr>) \<lparr>xc = 15, yc = 10\<rparr>
             = \<lparr>xc = 15, yc = 11\<rparr>"
    by (simp add: sample_defs)
  have fd: "xc (food ?g) = 6" "yc (food ?g) = 4"
    by (simp_all add: sample_defs)
  note t = turn_tick [of "sconst 0"]
  note c1 = changeDirection_buffer [of ?g "''up''" ?ds 0 "sconst 0" "\<lparr>xc = 15, yc = 10\<rparr>"
      "[\<lparr>xc = 14, yc = 10\<rparr>, \<lparr>xc = 13, yc = 10\<rparr>]"]
  note c2 = changeDirection_buffer [of ?g "''left''" ?ds 0 "sconst 0" "\<lparr>xc = 15, yc = 10\<rparr>"
      "[\<lparr>xc = 14, yc = 10\<rparr>, \<lparr>xc = 13, yc = 10\<rparr>]"]
  from c1 a(1) have u: "nextDirection (snake (changeDirection ''up'' ?g)) = ''up''"
    by simp
  from c2 a(2) have l: "changeDirection ''left'' ?g = ?g"
    by simp
  from c1 f b n fd
  have "\<exists>g' s'. gameLoop 0 (fold changeDirection ?ds ?g) (sconst 0) = Some (Inr (g', s')) \<and>
                 direction (snake g') = ''down''"
    by simp
  with t have d: "direction (snake ?x) = ''down''"
    by auto
  from a(1,2) u l f b n t d show ?thesis
    by (intro conjI)
qed

subsection \<open>Special food\<close>

text \<open>
  Claim C3 (the code falls short of it). Constructing the default engine with a first
  draw below \<open>specialFoodChance\<close> leaves a special food on the board with no expiry timer:
  \<open>init\<close> calls \<open>spawnFood\<close>, which arms the timer, and then \<open>resetState\<close>, whose
  \<open>clearTimers\<close> cancels it. And where the timer is armed (food respawned in a running
  game) and fires, its callback calls \<open>spawnFood\<close>, which draws the food type again: with
  a draw below \<open>specialFoodChance\<close> the replacement is special once more.
\<close>

theorem special_food_never_expires:
  "constructor no_opts (1/20 ## 1/5 ## 1/5 ## s) =
     Some ((initSnake (new_game default_config))\<lparr>food := \<lparr>xc = 6, yc = 4, type = Special\<rparr>\<rparr>, s) \<and>
   specialFoodTimer ((initSnake (new_game default_config))\<lparr>food := \<lparr>xc = 6, yc = 4, type = Special\<rparr>\<rparr>) = None \<and>
   specialFoodTimeout ((sample ''classic'' [\<lparr>xc = 15, yc = 10\<rparr>, \<lparr>xc = 14, yc = 10\<rparr>, \<lparr>xc = 13, yc = 10\<rparr>]
        \<lparr>xc = 6, yc = 4, type = Special\<rparr> [])\<lparr>specialFoodTimer := Some 5000\<rparr>) (1/20 ## 1/4 ## 1/4 ## s) =
     Some ((sample ''classic'' [\<lparr>xc = 15, yc = 10\<rparr>, \<lparr>xc = 14, yc = 10\<rparr>, \<lparr>xc = 13, yc = 10\<rparr>]
        \<lparr>xc = 6, yc = 4, type = Special\<rparr> [])\<lparr>food := \<lparr>xc = 7, yc = 5, type = Special\<rparr>, specialFoodTimer := Some 5000\<rparr>, s)"
  by (simp add: eval_defs sample_def specialFoodTimeout_def spawnFood_loop_hit spawnFood_loop_miss)

subsection \<open>Rescheduling the tick timer\<close>

text \<open>
  Claim C4 (the code falls short of it). The default engine, constructed with a special
  food right in front of the head and started, eats it in the first tick and draws the
  speed boost: \<open>checkFood\<close> reschedules the tick timer to 103.6 ms, the value of the speed
  formula. The tick at which the boost expires clears the power-up and leaves the timer at
  103.6 ms, while the speed formula now gives 148 ms: \<open>checkPowerUps\<close> does not
  reschedule.
\<close>

theorem boost_expiry_keeps_interval:
  "map_option (start \<circ> fst) (constructor no_opts (1/20 ## 11/20 ## 1/2 ## s)) =
     Some (sample ''classic'' [\<lparr>xc = 15, yc = 10\<rparr>, \<lparr>xc = 14, yc = 10\<rparr>, \<lparr>xc = 13, yc = 10\<rparr>]
        \<lparr>xc = 16, yc = 10, type = Special\<rparr> []) \<and>
   gameLoop 0 (sample ''classic'' [\<lparr>xc = 15, yc = 10\<rparr>, \<lparr>xc = 14, yc = 10\<rparr>, \<lparr>xc = 13, yc = 10\<rparr>]
        \<lparr>xc = 16, yc = 10, type = Special\<rparr> []) (0 ## 1/2 ## 1/5 ## 1/5 ## s) =
     Some (Inr ((sample ''classic'' [\<lparr>xc = 16, yc = 10\<rparr>, \<lparr>xc = 15, yc = 10\<rparr>, \<lparr>xc = 14, yc = 10\<rparr>]
        \<lparr>xc = 6, yc = 4, type = Normal\<rparr> [])
        \<lparr>snake := \<lparr>body = [\<lparr>xc = 16, yc = 10\<rparr>, \<lparr>xc = 15, yc = 10\<rparr>, \<lparr>xc = 14, yc = 10\<rparr>], direction = ''right'', nextDirection = ''right'', growing = True\<rparr>,
         state := initial_state\<lparr>running := True, score := 5, foodEaten := 1, specialFoodEaten := 1,
                    powerUpActive := True, powerUpType := Some SpeedBoost, powerUpEndTime := 5000\<rparr>,
         gameLoopInterval := Some (518 / 5)\<rparr>, s)) \<and>
   gameLoop 5000 ((sample ''classic'' [\<lparr>xc = 16, yc = 10\<rparr>, \<lparr>xc = 15, yc = 10\<rparr>, \<lparr>xc = 14, yc = 10\<rparr>]
        \<lparr>xc = 6, yc = 4, type = Normal\<rparr> [])
        \<lparr>snake := \<lparr>body = [\<lparr>xc = 16, yc = 10\<rparr>, \<lparr>xc = 15, yc = 10\<rparr>, \<lparr>xc = 14, yc = 10\<rparr>], direction = ''right'', nextDirection = ''right'', growing = True\<rparr>,
         state := initial_state\<lparr>running := True, score := 5, foodEaten := 1, specialFoodEaten := 1,
                    powerUpActive := True, powerUpType := Some SpeedBoost, powerUpEndTime := 5000\<rparr>,
         gameLoopInterval := Some (518 / 5)\<rparr>) s =
     Some (Inr ((sample ''classic'' [\<lparr>xc = 16, yc = 10\<rparr>, \<lparr>xc = 15, yc = 10\<rparr>, \<lparr>xc = 14, yc = 10\<rparr>]
        \<lparr>xc = 6, yc = 4, type = Normal\<rparr> [])
        \<lparr>snake := \<lparr>body = [\<lparr>xc = 17, yc = 10\<rparr>, \<lparr>xc = 16, yc = 10\<rparr>, \<lparr>xc = 15, yc = 10\<rparr>, \<lparr>xc = 14, yc = 10\<rparr>], direction = ''right'', nextDirection = ''right'', growing = False\<rparr>,
         state := initial_state\<lparr>running := True, score := 5, foodEaten := 1, specialFoodEaten := 1,
                    powerUpActive := False, powerUpType := None, powerUpEndTime := 5000\<rparr>,
         gameLoopInterval := Some (518 / 5)\<rparr>, s)) \<and>
   getCurrentSpeed ((sample ''classic'' [\<lparr>xc = 16, yc = 10\<rparr>, \<lparr>xc = 15, yc = 10\<rparr>, \<lparr>xc = 14, yc = 10\<rparr>]
        \<lparr>xc = 6, yc = 4, type = Normal\<rparr> [])
        \<lparr>snake := \<lparr>body = [\<lparr>xc = 17, yc = 10\<rparr>, \<lparr>xc = 16, yc = 10\<rparr>, \<lparr>xc = 15, yc = 10\<rparr>, \<lparr>xc = 14, yc = 10\<rparr>], direction = ''right'', nextDirection = ''right'', growing = False\<rparr>,
         state := initial_state\<lparr>running := True, score := 5, foodEaten := 1, specialFoodEaten := 1,
                    powerUpActive := False, powerUpType := None, powerUpEndTime := 5000\<rparr>,
         gameLoopInterval := Some (518 / 5)\<rparr>) = 148"
  by (simp add: eval_defs sample_def spawnFood_loop_hit spawnFood_loop_miss)

subsection \<open>Reconfiguration\<close>

text \<open>
  Claim C9 (the code falls short of it). An idle engine constructed in obstacle mode with
  one obstacle, then given \<open>setConfig({mode: 'classic'})\<close>, is reset by \<open>init\<close>, which
  rebuilds the obstacles only in obstacle mode: the obstacle of the old mode stays, whereas
  constructing an engine with the merged configuration on the same draws gives none.
\<close>

theorem setConfig_keeps_obstacles:
  "constructor (no_opts\<lparr>mode_opt := Some ''obstacle'', obstacleCount_opt := Some 1\<rparr>)
     (1/2 ## 1/5 ## 1/5 ## 1/10 ## 1/10 ## s) =
     Some ((initSnake (new_game (default_config\<lparr>mode := ''obstacle'', obstacleCount := 1\<rparr>)))
             \<lparr>food := \<lparr>xc = 6, yc = 4, type = Normal\<rparr>, obstacles := [\<lparr>xc = 3, yc = 2\<rparr>]\<rparr>, s) \<and>
   setConfig (no_opts\<lparr>mode_opt := Some ''classic''\<rparr>)
     ((initSnake (new_game (default_config\<lparr>mode := ''obstacle'', obstacleCount := 1\<rparr>)))
             \<lparr>food := \<lparr>xc = 6, yc = 4, type = Normal\<rparr>, obstacles := [\<lparr>xc = 3, yc = 2\<rparr>]\<rparr>)
     (1/2 ## 3/10 ## 3/10 ## s) =
     Some ((initSnake (new_game (default_config\<lparr>obstacleCount := 1\<rparr>)))
             \<lparr>food := \<lparr>xc = 9, yc = 6, type = Normal\<rparr>, obstacles := [\<lparr>xc = 3, yc = 2\<rparr>]\<rparr>, s) \<and>
   constructor (no_opts\<lparr>mode_opt := Some ''classic'', obstacleCount_opt := Some 1\<rparr>)
     (1/2 ## 3/10 ## 3/10 ## s) =
     Some ((initSnake (new_game (default_config\<lparr>obstacleCount := 1\<rparr>)))
             \<lparr>food := \<lparr>xc = 9, yc = 6, type = Normal\<rparr>, obstacles := []\<rparr>, s)"
  by (simp add: eval_defs setConfig_def reset_def initObstacles_def spawnObstacle_def
      checkCollision_Utils_def spawnFood_loop_hit spawnFood_loop_miss spawnObstacle_loop_hit)

end
